theory Spec2Isabelle
  imports Complex_Main "HOL-Library.Word"
begin

section \<open>The frame buffer of the video jitter buffer (frame\_buffer.cc)\<close>

text \<open>
  A shallow embedding of \<^verbatim>\<open>VCMFrameBuffer\<close>: one encoded video frame being put
  together from transport packets. Every member function becomes a function from the
  object before the call to the object after it (and the returned value). The class
  derives from \<^verbatim>\<open>VCMEncodedFrame\<close> and owns a \<^verbatim>\<open>VCMSessionInfo\<close>; neither is
  defined in frame\_buffer.cc:
  \<^item> the session (the packet list) is a value of an arbitrary type \<open>'s\<close>, and the member
    functions the frame buffer calls on it are the fields of a record of functions;
  \<^item> the two base-class functions the frame buffer calls are modelled from the
    specification, and marked so;
  \<^item> the three size constants are the fields of a record.
  A member \<^verbatim>\<open>_x\<close> of the class is the field \<open>m_x\<close> of the record.
\<close>

subsection \<open>Machine integers and enumerations\<close>

type_synonym WebRtc_UWord8 = "8 word"
type_synonym WebRtc_UWord16 = "16 word"
type_synonym WebRtc_UWord32 = "32 word"
type_synonym WebRtc_Word16 = "16 word"
type_synonym WebRtc_Word64 = "64 word"

text \<open>The lifecycle states named by the \<^verbatim>\<open>switch\<close> of \<^verbatim>\<open>SetState\<close>.\<close>

datatype VCMFrameBufferStateEnum =
  kStateFree | kStateEmpty | kStateIncomplete | kStateComplete | kStateDecoding | kStateDecodable

text \<open>The result codes \<^verbatim>\<open>InsertPacket\<close> returns.\<close>

datatype VCMFrameBufferEnum =
  kStateError | kTimeStampError | kSizeError | kIncomplete | kCompleteSession | kDuplicatePacket

text \<open>The two results of \<^verbatim>\<open>ExtractFromStorage\<close>.\<close>

datatype VCMResult = VCM_OK | VCM_MEMORY

text \<open>
  Modelled from the spec: the frame-type tag of a packet (``one of: empty/control, key,
  delta, or other codec-specific tags''), the frame type of the encoded-frame base and the
  ``codec identifier''. Their declarations are in headers that are not part of the sources;
  the code only compares a packet's tag with \<^verbatim>\<open>kFrameEmpty\<close> and copies the others.
\<close>

datatype FrameType = kFrameEmpty | kVideoFrameKey | kVideoFrameDelta | kFrameTypeOther nat

datatype VideoFrameType = kKeyFrame | kDeltaFrame | kVideoFrameTypeOther nat

datatype VideoCodecType = kVideoCodecUnknown | kVideoCodec nat

text \<open>
  What ends the program instead of returning: a failed \<^verbatim>\<open>assert\<close>, a division by a
  step size of zero, and a \<^verbatim>\<open>memcpy\<close> that reads past the end of its source.
\<close>

datatype fatal = AssertionFailed | DivisionByZero | ReadOutOfBounds

text \<open>
  \<^verbatim>\<open>assert\<close> of \<^verbatim>\<open>cassert\<close> tests its condition in a debug build and is
  compiled to nothing in a release build (\<^verbatim>\<open>NDEBUG\<close>).
\<close>

datatype build = Debug | Release

definition assert_passes :: "build \<Rightarrow> bool \<Rightarrow> bool" where
  "assert_passes b c = (case b of Debug \<Rightarrow> c | Release \<Rightarrow> True)"

subsection \<open>The data\<close>

text \<open>
  The constants \<^verbatim>\<open>kMaxJBFrameSizeBytes\<close>, \<^verbatim>\<open>kBufferIncStepSizeBytes\<close> and
  \<^verbatim>\<open>kH264StartCodeLengthBytes\<close> are declared in a header that is not part of the
  sources: they are parameters. The code mixes them with 32-bit unsigned values, so they
  are 32-bit unsigned values there.
\<close>

record config =
  kMaxJBFrameSizeBytes :: WebRtc_UWord32
  kBufferIncStepSizeBytes :: WebRtc_UWord32
  kH264StartCodeLengthBytes :: WebRtc_UWord32

text \<open>
  The classes and structures below are declared in headers that are not part of the
  sources; their fields are those frame\_buffer.cc reads or writes. Sizes, lengths and
  timestamps are 32-bit unsigned values, as the source has them where it names a type
  (\<^verbatim>\<open>WebRtc_UWord32 requiredSizeBytes = Length() + packet.sizeBytes + ...\<close>,
  \<^verbatim>\<open>GetState(WebRtc_UWord32& timeStamp)\<close>); the nack count and the arrival time have
  the types of their accessors, and the sequence number is only handed to the session.

  \<^verbatim>\<open>EncodedVideoData\<close>, a stored frame: the fields \<^verbatim>\<open>ExtractFromStorage\<close> reads.
  \<^verbatim>\<open>payloadData\<close> is the memory the pointer of that name points to.
\<close>

record EncodedVideoData =
  frameType :: FrameType
  timeStamp :: WebRtc_UWord32
  payloadType :: WebRtc_UWord8
  encodedWidth :: WebRtc_UWord32
  encodedHeight :: WebRtc_UWord32
  missingFrame :: bool
  completeFrame :: bool
  renderTimeMs :: WebRtc_Word64
  codec :: VideoCodecType
  payloadData :: "WebRtc_UWord8 list"
  payloadSize :: WebRtc_UWord32

text \<open>
  \<^verbatim>\<open>VCMPacket\<close>: the fields \<^verbatim>\<open>InsertPacket\<close> reads. \<^verbatim>\<open>dataPtr\<close> is
  \<open>None\<close> for the \<^verbatim>\<open>NULL\<close> pointer, and the payload bytes otherwise.
\<close>

record VCMPacket =
  seqNum :: WebRtc_UWord16
  timestamp :: WebRtc_UWord32
  payloadType :: WebRtc_UWord8
  frameType :: FrameType
  sizeBytes :: WebRtc_UWord32
  dataPtr :: "WebRtc_UWord8 list option"
  codec :: VideoCodecType
  insertStartCode :: bool

text \<open>
  The base class \<^verbatim>\<open>VCMEncodedFrame\<close>: the members the frame buffer reads or writes.
  \<open>m_buffer\<close> is the memory \<^verbatim>\<open>_buffer\<close> points to (empty for \<^verbatim>\<open>NULL\<close>),
  \<open>m_size\<close> the allocated capacity and \<open>m_length\<close> the occupied length.
\<close>

record VCMEncodedFrame =
  m_buffer :: "WebRtc_UWord8 list"
  m_size :: WebRtc_UWord32
  m_length :: WebRtc_UWord32
  m_timeStamp :: WebRtc_UWord32
  m_payloadType :: WebRtc_UWord8
  m_codec :: VideoCodecType
  m_frameType :: VideoFrameType
  m_encodedWidth :: WebRtc_UWord32
  m_encodedHeight :: WebRtc_UWord32
  m_missingFrame :: bool
  m_completeFrame :: bool
  m_renderTimeMs :: WebRtc_Word64

text \<open>\<^verbatim>\<open>VCMFrameBuffer\<close> adds its own members to those of the base class.\<close>

record 's VCMFrameBuffer = VCMEncodedFrame +
  m_state :: VCMFrameBufferStateEnum
  m_frameCounted :: bool
  m_sessionInfo :: 's
  m_nackCount :: WebRtc_Word16
  m_latestPacketTimeMs :: WebRtc_Word64

text \<open>
  What the frame buffer calls and frame\_buffer.cc does not define. The \<open>si_\<close> fields
  are the member functions of \<^verbatim>\<open>VCMSessionInfo\<close>; one that writes through the
  buffer pointer it is given returns the buffer's new content, and one that changes the
  session returns the new session. \<^verbatim>\<open>ConvertFrameType\<close> is a static function of the
  base class. \<open>alloc_ok n\<close> tells whether \<open>n\<close> bytes can be allocated.
\<close>

record 's collaborators =
  si_HaveStartSeqNumber :: "'s \<Rightarrow> bool"
  si_SetStartSeqNumber :: "WebRtc_UWord16 \<Rightarrow> 's \<Rightarrow> 's"
  si_InsertPacket :: "VCMPacket \<Rightarrow> WebRtc_UWord8 list \<Rightarrow> 's \<Rightarrow> WebRtc_Word64 \<times> WebRtc_UWord8 list \<times> 's"
  si_IsSessionComplete :: "'s \<Rightarrow> bool"
  si_Reset :: "'s \<Rightarrow> 's"
  si_PrepareForDecode :: "WebRtc_UWord8 list \<Rightarrow> VideoCodecType \<Rightarrow> 's \<Rightarrow> WebRtc_UWord32 \<times> WebRtc_UWord8 list \<times> 's"
  si_FrameType :: "'s \<Rightarrow> FrameType"
  si_PreviousFrameLoss :: "'s \<Rightarrow> bool"
  ConvertFrameType :: "FrameType \<Rightarrow> VideoFrameType"
  alloc_ok :: "WebRtc_UWord32 \<Rightarrow> bool"

subsection \<open>The base class\<close>

text \<open>
  Modelled from the spec: the accessors \<^verbatim>\<open>Length()\<close> and \<^verbatim>\<open>TimeStamp()\<close> of
  the encoded-frame base (``\<open>length()\<close>, \<open>timestamp()\<close>'' in its consumed contract),
  which are not defined in frame\_buffer.cc: they read the two members.
\<close>

definition Length :: "'a VCMEncodedFrame_scheme \<Rightarrow> WebRtc_UWord32" where
  "Length f = m_length f"

definition TimeStamp :: "'a VCMEncodedFrame_scheme \<Rightarrow> WebRtc_UWord32" where
  "TimeStamp f = m_timeStamp f"

text \<open>
  Modelled from the spec: \<^verbatim>\<open>VCMEncodedFrame::VerifyAndAllocate\<close>, the
  capacity-growth primitive of the encoded-frame base, which is not defined in
  frame\_buffer.cc. The spec: the buffer ``only grows, never shrinks''; ``growth must
  preserve previously written bytes (reallocation is a copy-extend, not a truncate)'';
  storage extraction ``grows the buffer to the exact stored size''; the primitive
  returns a status, and on failure there are ``no partial writes''. So a request
  above the capacity either fails with -1 and changes nothing, or makes the capacity
  the requested size and extends the buffer behind its old bytes (the new bytes,
  whose content the spec leaves open, are written as 0 here). A request that the
  capacity already covers changes nothing.
\<close>

definition VerifyAndAllocate ::
  "'s collaborators \<Rightarrow> WebRtc_UWord32 \<Rightarrow> 'a VCMEncodedFrame_scheme \<Rightarrow> int \<times> 'a VCMEncodedFrame_scheme" where
  "VerifyAndAllocate ops minimumSize f =
     (if minimumSize > m_size f then
        (if alloc_ok ops minimumSize then
           (0, f\<lparr>m_buffer := m_buffer f @ replicate (unat minimumSize - length (m_buffer f)) 0,
                 m_size := minimumSize\<rparr>)
         else (-1, f))
      else (0, f))"

text \<open>
  Modelled from the spec: \<^verbatim>\<open>VCMEncodedFrame::Reset\<close>, the \<open>reset()\<close> of the
  encoded-frame base, which is not defined in frame\_buffer.cc. The spec asks that a
  reset leave the entity ``immediately reusable'' with ``length 0'', and lists the shared
  metadata of the base (encoded dimensions, render time, frame type, completeness flag,
  missing-frame flag): the occupied length, the timestamp and the payload type return to
  0 and the metadata to unset values. The buffer and its capacity stay.
\<close>

definition VCMEncodedFrame_Reset :: "'a VCMEncodedFrame_scheme \<Rightarrow> 'a VCMEncodedFrame_scheme" where
  "VCMEncodedFrame_Reset f =
     f\<lparr>m_renderTimeMs := -1, m_timeStamp := 0, m_payloadType := 0, m_frameType := kDeltaFrame,
       m_encodedWidth := 0, m_encodedHeight := 0, m_completeFrame := False,
       m_missingFrame := False, m_length := 0, m_codec := kVideoCodecUnknown\<rparr>"

subsection \<open>Reset, decode transfer and the state machine\<close>

text \<open>\<^verbatim>\<open>VCMFrameBuffer::IncrementNackCount\<close> and \<^verbatim>\<open>VCMFrameBuffer::GetNackCount\<close>.\<close>

definition IncrementNackCount :: "'s VCMFrameBuffer \<Rightarrow> 's VCMFrameBuffer" where
  "IncrementNackCount f = f\<lparr>m_nackCount := m_nackCount f + 1\<rparr>"

definition GetNackCount :: "'s VCMFrameBuffer \<Rightarrow> WebRtc_Word16" where
  "GetNackCount f = m_nackCount f"

text \<open>\<^verbatim>\<open>VCMFrameBuffer::LatestPacketTimeMs\<close> and \<^verbatim>\<open>VCMFrameBuffer::GetState\<close>.\<close>

definition LatestPacketTimeMs :: "'s VCMFrameBuffer \<Rightarrow> WebRtc_Word64" where
  "LatestPacketTimeMs f = m_latestPacketTimeMs f"

definition GetState :: "'s VCMFrameBuffer \<Rightarrow> VCMFrameBufferStateEnum" where
  "GetState f = m_state f"

text \<open>\<^verbatim>\<open>VCMFrameBuffer::Reset\<close>: the assignments in the order of the source.\<close>

definition Reset :: "'s collaborators \<Rightarrow> 's VCMFrameBuffer \<Rightarrow> 's VCMFrameBuffer" where
  "Reset ops f =
     VCMEncodedFrame_Reset
       (f\<lparr>m_length := 0,
          m_timeStamp := 0,
          m_sessionInfo := si_Reset ops (m_sessionInfo f),
          m_frameCounted := False,
          m_payloadType := 0,
          m_nackCount := 0,
          m_latestPacketTimeMs := -1,
          m_state := kStateFree\<rparr>)"

text \<open>\<^verbatim>\<open>VCMFrameBuffer::PrepareForDecode\<close>: the session compacts the buffer and gives
  the final length.\<close>

definition PrepareForDecode :: "'s collaborators \<Rightarrow> 's VCMFrameBuffer \<Rightarrow> 's VCMFrameBuffer" where
  "PrepareForDecode ops f =
     (case si_PrepareForDecode ops (m_buffer f) (m_codec f) (m_sessionInfo f) of
        (len, buf, s) \<Rightarrow> f\<lparr>m_buffer := buf, m_sessionInfo := s, m_length := len\<rparr>)"

text \<open>\<^verbatim>\<open>VCMFrameBuffer::RestructureFrameInformation\<close>.\<close>

definition RestructureFrameInformation :: "'s collaborators \<Rightarrow> 's VCMFrameBuffer \<Rightarrow> 's VCMFrameBuffer" where
  "RestructureFrameInformation ops f =
     (let f1 = PrepareForDecode ops f;
          f2 = f1\<lparr>m_frameType := ConvertFrameType ops (si_FrameType ops (m_sessionInfo f1))\<rparr>;
          f3 = f2\<lparr>m_completeFrame := si_IsSessionComplete ops (m_sessionInfo f2)\<rparr>
      in f3\<lparr>m_missingFrame := si_PreviousFrameLoss ops (m_sessionInfo f3)\<rparr>)"

text \<open>
  \<^verbatim>\<open>VCMFrameBuffer::SetState\<close>. The result is \<open>Inl AssertionFailed\<close> where an
  \<^verbatim>\<open>assert\<close> stops a debug build. The \<^verbatim>\<open>default\<close> branch of the
  \<^verbatim>\<open>switch\<close> is not reached by any of the six enumerators.
\<close>

definition SetState ::
  "build \<Rightarrow> 's collaborators \<Rightarrow> VCMFrameBufferStateEnum \<Rightarrow> 's VCMFrameBuffer \<Rightarrow> fatal + 's VCMFrameBuffer" where
  "SetState b ops state f =
     (if m_state f = state then Inr f
      else case state of
        kStateFree \<Rightarrow> Inr ((Reset ops f)\<lparr>m_state := state\<rparr>)
      | kStateIncomplete \<Rightarrow>
          if assert_passes b (m_state f = kStateEmpty \<or> m_state f = kStateDecoding)
          then Inr (f\<lparr>m_state := state\<rparr>) else Inl AssertionFailed
      | kStateComplete \<Rightarrow>
          if assert_passes b (m_state f = kStateEmpty \<or> m_state f = kStateIncomplete \<or>
                              m_state f = kStateDecodable)
          then Inr (f\<lparr>m_state := state\<rparr>) else Inl AssertionFailed
      | kStateEmpty \<Rightarrow>
          if assert_passes b (m_state f = kStateFree)
          then Inr (f\<lparr>m_state := state\<rparr>) else Inl AssertionFailed
      | kStateDecoding \<Rightarrow>
          if assert_passes b (m_state f = kStateComplete \<or> m_state f = kStateIncomplete \<or>
                              m_state f = kStateDecodable)
          then Inr ((RestructureFrameInformation ops f)\<lparr>m_state := state\<rparr>)
          else Inl AssertionFailed
      | kStateDecodable \<Rightarrow>
          if m_state f = kStateComplete then Inr f
          else if assert_passes b (m_state f = kStateEmpty \<or> m_state f = kStateIncomplete)
          then Inr (f\<lparr>m_state := state\<rparr>) else Inl AssertionFailed)"

subsection \<open>Packet insertion\<close>

text \<open>The start-code length that both size computations of \<^verbatim>\<open>InsertPacket\<close> add:
  \<^verbatim>\<open>(packet.insertStartCode ? kH264StartCodeLengthBytes : 0)\<close>.\<close>

definition startCodeLength :: "config \<Rightarrow> VCMPacket \<Rightarrow> WebRtc_UWord32" where
  "startCodeLength cfg packet = (if insertStartCode packet then kH264StartCodeLengthBytes cfg else 0)"

text \<open>
  Lines 86 to 114: the checks that return before anything is written. \<open>Some r\<close> is the
  return of \<open>r\<close>, \<open>None\<close> is falling through to line 115. The sum of line 105 is a
  sum of 32-bit unsigned values.
\<close>

definition InsertPacket_checks :: "config \<Rightarrow> VCMPacket \<Rightarrow> 's VCMFrameBuffer \<Rightarrow> VCMFrameBufferEnum option" where
  "InsertPacket_checks cfg packet f =
     (if m_state f = kStateDecoding then Some kIncomplete
      else if m_state f = kStateFree then Some kStateError
      else if TimeStamp f \<noteq> 0 \<and> TimeStamp f \<noteq> timestamp packet then Some kTimeStampError
      else if m_size f + sizeBytes packet + startCodeLength cfg packet > kMaxJBFrameSizeBytes cfg
        then Some kSizeError
      else if dataPtr packet = None \<and> sizeBytes packet > 0 then Some kSizeError
      else None)"

text \<open>
  Lines 115 to 136: the start sequence number, the payload type, and on an
  \<^verbatim>\<open>Empty\<close> frame the timestamp, the codec and the step to \<^verbatim>\<open>Incomplete\<close>.
\<close>

definition InsertPacket_latch ::
  "build \<Rightarrow> 's collaborators \<Rightarrow> VCMPacket \<Rightarrow> 's VCMFrameBuffer \<Rightarrow> fatal + 's VCMFrameBuffer" where
  "InsertPacket_latch b ops packet f =
     (let f1 = (if VCMPacket.frameType packet \<noteq> kFrameEmpty \<and> \<not> si_HaveStartSeqNumber ops (m_sessionInfo f)
                then f\<lparr>m_sessionInfo := si_SetStartSeqNumber ops (seqNum packet) (m_sessionInfo f)\<rparr>
                else f);
          f2 = (if dataPtr packet \<noteq> None then f1\<lparr>m_payloadType := VCMPacket.payloadType packet\<rparr> else f1)
      in if kStateEmpty = m_state f2 then
           (let f3 = f2\<lparr>m_timeStamp := timestamp packet, m_codec := VCMPacket.codec packet\<rparr>
            in if VCMPacket.frameType packet \<noteq> kFrameEmpty then SetState b ops kStateIncomplete f3
               else Inr f3)
         else Inr f2)"

text \<open>Lines 138 to 147: the three local values of the growth step, in 32-bit unsigned
  arithmetic. \<^verbatim>\<open>(requiredSizeBytes % kBufferIncStepSizeBytes > 0)\<close> is 1 or 0.\<close>

definition requiredSizeBytes :: "config \<Rightarrow> VCMPacket \<Rightarrow> 's VCMFrameBuffer \<Rightarrow> WebRtc_UWord32" where
  "requiredSizeBytes cfg packet f = Length f + sizeBytes packet + startCodeLength cfg packet"

definition increments :: "config \<Rightarrow> WebRtc_UWord32 \<Rightarrow> WebRtc_UWord32" where
  "increments cfg required =
     required div kBufferIncStepSizeBytes cfg +
     (if required mod kBufferIncStepSizeBytes cfg > 0 then 1 else 0)"

definition newSize :: "config \<Rightarrow> WebRtc_UWord32 \<Rightarrow> 's VCMFrameBuffer \<Rightarrow> WebRtc_UWord32" where
  "newSize cfg required f = m_size f + increments cfg required * kBufferIncStepSizeBytes cfg"

text \<open>
  Lines 138 to 156: the growth step. \<open>Inr (False, f)\<close> is the return of
  \<^verbatim>\<open>kSizeError\<close> from this step with the object \<open>f\<close>, \<open>Inr (True, f)\<close> is
  going on to line 157.
\<close>

definition InsertPacket_grow ::
  "config \<Rightarrow> 's collaborators \<Rightarrow> VCMPacket \<Rightarrow> 's VCMFrameBuffer \<Rightarrow> fatal + bool \<times> 's VCMFrameBuffer" where
  "InsertPacket_grow cfg ops packet f =
     (let required = requiredSizeBytes cfg packet f
      in if required \<ge> m_size f then
           (if kBufferIncStepSizeBytes cfg = 0 then Inl DivisionByZero
            else if newSize cfg required f > kMaxJBFrameSizeBytes cfg then Inr (False, f)
            else (case VerifyAndAllocate ops (newSize cfg required f) f of
                    (status, f') \<Rightarrow> if status = -1 then Inr (False, f') else Inr (True, f')))
         else Inr (True, f))"

text \<open>
  Lines 157 to 185: the session stores the packet in the buffer, the length and the
  arrival time are updated, and the completeness of the session decides the result.
  \<^verbatim>\<open>static_cast<WebRtc_UWord32>(retVal)\<close> keeps the low 32 bits.
\<close>

definition InsertPacket_store ::
  "'s collaborators \<Rightarrow> VCMPacket \<Rightarrow> WebRtc_Word64 \<Rightarrow> 's VCMFrameBuffer \<Rightarrow> VCMFrameBufferEnum \<times> 's VCMFrameBuffer" where
  "InsertPacket_store ops packet timeInMs f =
     (case si_InsertPacket ops packet (m_buffer f) (m_sessionInfo f) of
        (retVal, buf, s) \<Rightarrow>
          (let f1 = f\<lparr>m_buffer := buf, m_sessionInfo := s\<rparr>
           in if retVal = -1 then (kSizeError, f1)
              else if retVal = -2 then (kDuplicatePacket, f1)
              else (let f2 = f1\<lparr>m_length := Length f1 + ucast retVal\<rparr>;
                        f3 = f2\<lparr>m_latestPacketTimeMs := timeInMs\<rparr>
                    in if si_IsSessionComplete ops (m_sessionInfo f3) then (kCompleteSession, f3)
                       else if m_state f3 = kStateComplete
                         then (kIncomplete, f3\<lparr>m_state := kStateIncomplete\<rparr>)
                       else (kIncomplete, f3))))"

text \<open>\<^verbatim>\<open>VCMFrameBuffer::InsertPacket\<close>: the four parts in sequence.\<close>

definition InsertPacket ::
  "build \<Rightarrow> config \<Rightarrow> 's collaborators \<Rightarrow> VCMPacket \<Rightarrow> WebRtc_Word64 \<Rightarrow> 's VCMFrameBuffer
     \<Rightarrow> fatal + VCMFrameBufferEnum \<times> 's VCMFrameBuffer" where
  "InsertPacket b cfg ops packet timeInMs f =
     (case InsertPacket_checks cfg packet f of
        Some r \<Rightarrow> Inr (r, f)
      | None \<Rightarrow>
          (case InsertPacket_latch b ops packet f of
             Inl e \<Rightarrow> Inl e
           | Inr f1 \<Rightarrow>
               (case InsertPacket_grow cfg ops packet f1 of
                  Inl e \<Rightarrow> Inl e
                | Inr (grown, f2) \<Rightarrow>
                    if grown then Inr (InsertPacket_store ops packet timeInMs f2)
                    else Inr (kSizeError, f2))))"

subsection \<open>Storage extraction\<close>

text \<open>
  \<^verbatim>\<open>VCMFrameBuffer::ExtractFromStorage\<close>. \<^verbatim>\<open>memcpy\<close> writes the first
  \<^verbatim>\<open>payloadSize\<close> bytes of the stored payload over the start of the buffer; a stored
  payload shorter than \<^verbatim>\<open>payloadSize\<close> is read out of bounds.
\<close>

definition ExtractFromStorage ::
  "'s collaborators \<Rightarrow> EncodedVideoData \<Rightarrow> 's VCMFrameBuffer \<Rightarrow> fatal + VCMResult \<times> 's VCMFrameBuffer" where
  "ExtractFromStorage ops frameFromStorage f =
     (let f1 = f\<lparr>m_frameType := ConvertFrameType ops (EncodedVideoData.frameType frameFromStorage),
                 m_timeStamp := timeStamp frameFromStorage,
                 m_payloadType := EncodedVideoData.payloadType frameFromStorage,
                 m_encodedWidth := encodedWidth frameFromStorage,
                 m_encodedHeight := encodedHeight frameFromStorage,
                 m_missingFrame := missingFrame frameFromStorage,
                 m_completeFrame := completeFrame frameFromStorage,
                 m_renderTimeMs := renderTimeMs frameFromStorage,
                 m_codec := EncodedVideoData.codec frameFromStorage\<rparr>
      in case VerifyAndAllocate ops (payloadSize frameFromStorage) f1 of
           (status, f2) \<Rightarrow>
             if status < 0 then Inr (VCM_MEMORY, f2)
             else if length (payloadData frameFromStorage) < unat (payloadSize frameFromStorage)
               then Inl ReadOutOfBounds
             else Inr (VCM_OK,
                       f2\<lparr>m_buffer := take (unat (payloadSize frameFromStorage)) (payloadData frameFromStorage)
                                       @ drop (unat (payloadSize frameFromStorage)) (m_buffer f2),
                          m_length := payloadSize frameFromStorage\<rparr>))"

subsection \<open>Concrete objects\<close>

text \<open>
  Objects on which the theorems below are run: a configuration, a session that stores
  packets one behind the other and is complete once it holds \<open>needed\<close> packets (its
  state is the number of packets and of bytes stored; \<open>mem\<close> tells whether memory can be
  allocated), a frame just taken into use, a media packet of three bytes, a very large
  media packet, and a stored frame of one byte.
\<close>

definition example_config :: config where
  "example_config =
     \<lparr>kMaxJBFrameSizeBytes = 4000000, kBufferIncStepSizeBytes = 30000,
      kH264StartCodeLengthBytes = 4\<rparr>"

definition payload_of :: "VCMPacket \<Rightarrow> WebRtc_UWord8 list" where
  "payload_of p = (case dataPtr p of None \<Rightarrow> [] | Some d \<Rightarrow> d)"

definition example_session :: "nat \<Rightarrow> bool \<Rightarrow> (nat \<times> nat) collaborators" where
  "example_session needed mem =
     \<lparr>si_HaveStartSeqNumber = (\<lambda>(n, k). 0 < n),
      si_SetStartSeqNumber = (\<lambda>sn s. s),
      si_InsertPacket = (\<lambda>p buf (n, k).
         (of_nat (length (payload_of p)),
          take k buf @ payload_of p @ drop (k + length (payload_of p)) buf,
          (Suc n, k + length (payload_of p)))),
      si_IsSessionComplete = (\<lambda>(n, k). needed \<le> n),
      si_Reset = (\<lambda>s. (0, 0)),
      si_PrepareForDecode = (\<lambda>buf c (n, k). (of_nat k, buf, (n, k))),
      si_FrameType = (\<lambda>s. kVideoFrameDelta),
      si_PreviousFrameLoss = (\<lambda>s. False),
      ConvertFrameType = (\<lambda>t. if t = kVideoFrameKey then kKeyFrame else kDeltaFrame),
      alloc_ok = (\<lambda>n. mem)\<rparr>"

definition example_frame :: "(nat \<times> nat) VCMFrameBuffer" where
  "example_frame =
     \<lparr>m_buffer = [], m_size = 0, m_length = 0, m_timeStamp = 0, m_payloadType = 0,
      m_codec = kVideoCodecUnknown, m_frameType = kDeltaFrame, m_encodedWidth = 0,
      m_encodedHeight = 0, m_missingFrame = False, m_completeFrame = False,
      m_renderTimeMs = -1,
      m_state = kStateEmpty, m_frameCounted = False, m_sessionInfo = (0, 0),
      m_nackCount = 0, m_latestPacketTimeMs = -1\<rparr>"

definition example_packet :: VCMPacket where
  "example_packet =
     \<lparr>seqNum = 17, timestamp = 90000, payloadType = 96, frameType = kVideoFrameDelta,
      sizeBytes = 3, dataPtr = Some [1, 2, 3], codec = kVideoCodec 2,
      insertStartCode = False\<rparr>"

definition large_packet :: VCMPacket where
  "large_packet =
     \<lparr>seqNum = 17, timestamp = 90000, payloadType = 96, frameType = kVideoFrameDelta,
      sizeBytes = 3990001, dataPtr = Some (replicate 3990001 0), codec = kVideoCodec 2,
      insertStartCode = False\<rparr>"

definition example_stored :: EncodedVideoData where
  "example_stored =
     \<lparr>EncodedVideoData.frameType = kVideoFrameKey, timeStamp = 90000,
      EncodedVideoData.payloadType = 96, encodedWidth = 640, encodedHeight = 480,
      missingFrame = False, completeFrame = True, renderTimeMs = 5000,
      EncodedVideoData.codec = kVideoCodec 2, payloadData = [7], payloadSize = 1\<rparr>"

text \<open>
  Three packets whose declared size is just below 4294967296, and the frame that
  holds the three bytes of \<open>example_packet\<close> after one call of \<^verbatim>\<open>InsertPacket\<close>
  (capacity 30000, occupied length 3, state \<^verbatim>\<open>Incomplete\<close>, timestamp 90000).
\<close>

definition wrapping_packet :: VCMPacket where
  "wrapping_packet =
     \<lparr>seqNum = 17, timestamp = 90000, payloadType = 96, frameType = kVideoFrameDelta,
      sizeBytes = 4294967295, dataPtr = Some (replicate 4294967295 0), codec = kVideoCodec 2,
      insertStartCode = True\<rparr>"

definition oversized_packet :: VCMPacket where
  "oversized_packet =
     \<lparr>seqNum = 18, timestamp = 90000, payloadType = 96, frameType = kVideoFrameDelta,
      sizeBytes = 4294937296, dataPtr = Some (replicate 4294937296 0), codec = kVideoCodec 2,
      insertStartCode = False\<rparr>"

definition odd_packet :: VCMPacket where
  "odd_packet =
     \<lparr>seqNum = 18, timestamp = 90000, payloadType = 96, frameType = kVideoFrameDelta,
      sizeBytes = 4294957296, dataPtr = Some (replicate 4294957296 0), codec = kVideoCodec 2,
      insertStartCode = False\<rparr>"

definition second_frame :: "(nat \<times> nat) VCMFrameBuffer" where
  "second_frame =
     snd (projr (InsertPacket Debug example_config (example_session 5 True) example_packet 1000
                   example_frame))"

text \<open>A session that already holds every packet it is given.\<close>

definition duplicate_session :: "(nat \<times> nat) collaborators" where
  "duplicate_session = (example_session 1 True)\<lparr>si_InsertPacket := (\<lambda>p buf s. (- 2, buf, s))\<rparr>"

section \<open>Auxiliary facts\<close>

lemmas example_defs = example_config_def example_session_def example_frame_def example_packet_def
  large_packet_def example_stored_def payload_of_def duplicate_session_def wrapping_packet_def
  oversized_packet_def odd_packet_def second_frame_def

lemmas model_defs = InsertPacket_def InsertPacket_checks_def InsertPacket_latch_def
  InsertPacket_grow_def InsertPacket_store_def SetState_def TimeStamp_def Length_def
  startCodeLength_def requiredSizeBytes_def increments_def newSize_def VerifyAndAllocate_def
  ExtractFromStorage_def Let_def

lemma assert_passes_simps [simp]:
  "assert_passes b True" "assert_passes Debug c = c" "assert_passes Release c"
  by (simp_all add: assert_passes_def split: build.splits)

subsection \<open>The parts of InsertPacket\<close>

lemma InsertPacket_checks_None:
  "InsertPacket_checks cfg packet f = None \<Longrightarrow>
     m_state f \<noteq> kStateDecoding \<and> m_state f \<noteq> kStateFree \<and>
     m_size f + sizeBytes packet + startCodeLength cfg packet \<le> kMaxJBFrameSizeBytes cfg"
  by (auto simp: InsertPacket_checks_def split: if_splits)

lemma InsertPacket_checks_Some:
  "InsertPacket_checks cfg packet f = Some r \<Longrightarrow>
     (r = kIncomplete \<and> m_state f = kStateDecoding) \<or> r = kStateError \<or>
     r = kTimeStampError \<or> r = kSizeError"
  by (auto simp: InsertPacket_checks_def split: if_splits)

text \<open>The latch never stops: \<^verbatim>\<open>SetState\<close> is called on an \<^verbatim>\<open>Empty\<close> frame only,
  where its assertion holds.\<close>

lemma InsertPacket_latch_Inr: "\<exists>f1. InsertPacket_latch b ops packet f = Inr f1"
  by (simp add: InsertPacket_latch_def SetState_def Let_def)

lemma InsertPacket_latch_fields:
  "InsertPacket_latch b ops packet f = Inr f1 \<Longrightarrow>
     m_size f1 = m_size f \<and> m_length f1 = m_length f \<and> m_buffer f1 = m_buffer f \<and>
     m_nackCount f1 = m_nackCount f \<and> m_latestPacketTimeMs f1 = m_latestPacketTimeMs f \<and>
     m_state f1 = (if m_state f = kStateEmpty \<and> VCMPacket.frameType packet \<noteq> kFrameEmpty
                   then kStateIncomplete else m_state f) \<and>
     m_timeStamp f1 = (if m_state f = kStateEmpty then timestamp packet else m_timeStamp f) \<and>
     m_codec f1 = (if m_state f = kStateEmpty then VCMPacket.codec packet else m_codec f) \<and>
     m_payloadType f1 =
       (if dataPtr packet \<noteq> None then VCMPacket.payloadType packet else m_payloadType f)"
  by (auto simp: InsertPacket_latch_def SetState_def Let_def split: if_splits)

lemma InsertPacket_latch_eq:
  "InsertPacket_latch b ops packet f = Inr f1 \<Longrightarrow>
   f1 = f\<lparr>m_timeStamp := (if m_state f = kStateEmpty then timestamp packet else m_timeStamp f),
          m_payloadType := (if dataPtr packet \<noteq> None then VCMPacket.payloadType packet
                            else m_payloadType f),
          m_codec := (if m_state f = kStateEmpty then VCMPacket.codec packet else m_codec f),
          m_state := (if m_state f = kStateEmpty \<and> VCMPacket.frameType packet \<noteq> kFrameEmpty
                      then kStateIncomplete else m_state f),
          m_sessionInfo := (if VCMPacket.frameType packet \<noteq> kFrameEmpty \<and>
                               \<not> si_HaveStartSeqNumber ops (m_sessionInfo f)
                            then si_SetStartSeqNumber ops (seqNum packet) (m_sessionInfo f)
                            else m_sessionInfo f)\<rparr>"
  by (cases "m_state f = kStateEmpty"; cases "VCMPacket.frameType packet = kFrameEmpty";
      cases "dataPtr packet = None"; cases "si_HaveStartSeqNumber ops (m_sessionInfo f)")
     (auto simp: InsertPacket_latch_def SetState_def Let_def)

lemma growth_values_cong:
  "m_length f1 = m_length f \<Longrightarrow> m_size f1 = m_size f \<Longrightarrow>
     requiredSizeBytes cfg packet f1 = requiredSizeBytes cfg packet f \<and>
     newSize cfg required f1 = newSize cfg required f"
  by (simp add: requiredSizeBytes_def newSize_def Length_def)

lemma InsertPacket_grow_False:
  "InsertPacket_grow cfg ops packet f1 = Inr (False, f2) \<Longrightarrow> f2 = f1"
  by (auto simp: InsertPacket_grow_def VerifyAndAllocate_def Let_def split: if_splits)

lemma InsertPacket_grow_True:
  assumes "InsertPacket_grow cfg ops packet f1 = Inr (True, f2)"
  shows "m_length f2 = m_length f1 \<and> m_state f2 = m_state f1 \<and>
         m_sessionInfo f2 = m_sessionInfo f1 \<and>
         (f2 = f1 \<or>
          (kBufferIncStepSizeBytes cfg \<noteq> 0 \<and> m_size f1 \<le> requiredSizeBytes cfg packet f1 \<and>
           m_size f1 < newSize cfg (requiredSizeBytes cfg packet f1) f1 \<and>
           newSize cfg (requiredSizeBytes cfg packet f1) f1 \<le> kMaxJBFrameSizeBytes cfg \<and>
           m_size f2 = newSize cfg (requiredSizeBytes cfg packet f1) f1))"
  using assms
  by (auto simp: InsertPacket_grow_def VerifyAndAllocate_def Let_def split: if_splits)

lemma InsertPacket_store_code:
  "InsertPacket_store ops packet t f = (r, f') \<Longrightarrow>
     r \<noteq> kTimeStampError \<and> r \<noteq> kStateError \<and> m_size f' = m_size f \<and>
     m_timeStamp f' = m_timeStamp f"
  by (auto simp: InsertPacket_store_def Let_def split: prod.splits if_splits)

lemma InsertPacket_store_accepted:
  "InsertPacket_store ops packet t f = (r, f') \<Longrightarrow> r = kCompleteSession \<or> r = kIncomplete \<Longrightarrow>
     (si_IsSessionComplete ops (m_sessionInfo f') \<longrightarrow> r = kCompleteSession \<and> m_state f' = m_state f) \<and>
     (\<not> si_IsSessionComplete ops (m_sessionInfo f') \<longrightarrow> r = kIncomplete \<and>
        m_state f' = (if m_state f = kStateComplete then kStateIncomplete else m_state f))"
  by (auto simp: InsertPacket_store_def Let_def split: prod.splits if_splits)

subsection \<open>The arithmetic of the growth step\<close>

text \<open>The number of increments never wraps around: it is at most the required size.\<close>

lemma unat_increments:
  fixes required :: WebRtc_UWord32
  assumes "kBufferIncStepSizeBytes cfg \<noteq> 0"
  shows "unat (increments cfg required) =
         unat required div unat (kBufferIncStepSizeBytes cfg) +
         (if unat required mod unat (kBufferIncStepSizeBytes cfg) > 0 then 1 else 0)"
proof -
  let ?s = "kBufferIncStepSizeBytes cfg"
  have s: "0 < unat ?s" using assms by (simp add: unat_gt_0)
  have m: "(0 < required mod ?s) = (0 < unat required mod unat ?s)"
    by (simp add: word_less_nat_alt unat_mod)
  show ?thesis
  proof (cases "0 < unat required mod unat ?s")
    case False
    then show ?thesis using m by (simp add: increments_def unat_div)
  next
    case True
    have "unat required = unat ?s * (unat required div unat ?s) + unat required mod unat ?s"
      by simp
    moreover have "unat required div unat ?s \<le> unat ?s * (unat required div unat ?s)"
      using s by simp
    ultimately have "unat required div unat ?s + 1 \<le> unat required"
      using True by linarith
    moreover have "unat required < 2 ^ 32" using unsigned_less[of required] by simp
    ultimately have "unat (required div ?s) + unat (1::32 word) < 2 ^ LENGTH(32)"
      by (simp add: unat_div)
    then have "unat (required div ?s + 1) = unat (required div ?s) + unat (1::32 word)"
      by (simp only: unat_add_lem)
    then show ?thesis using True m by (simp add: increments_def unat_div)
  qed
qed

lemma ceiling_div_nat:
  fixes a s :: nat
  assumes "0 < s"
  shows "\<lceil>real a / real s\<rceil> = int (a div s + (if a mod s > 0 then 1 else 0))"
proof -
  have "\<lceil>real a / real s\<rceil> = \<lceil>of_int (int a) / of_int (int s) :: real\<rceil>" by simp
  also have "\<dots> = - (- int a div int s)" by (rule ceiling_divide_eq_div)
  also have "\<dots> = int (a div s + (if a mod s > 0 then 1 else 0))"
  proof (cases "a mod s = 0")
    case True
    then have "int s dvd int a" by (simp add: mod_eq_0_iff_dvd)
    then have "- int a div int s = - (int a div int s)" by (simp add: dvd_neg_div)
    then show ?thesis using True by (simp add: zdiv_int)
  next
    case False
    then have "int a mod int s \<noteq> 0" by (simp flip: zmod_int)
    then have "- int a div int s = - (int a div int s) - 1"
      using assms by (simp add: zdiv_zminus1_eq_if)
    then show ?thesis using False by (simp add: zdiv_int)
  qed
  finally show ?thesis .
qed

lemma ceil_mult_bound:
  fixes a s :: nat
  assumes "0 < s"
  shows "(a div s + (if a mod s > 0 then 1 else 0)) * s < a + s"
proof -
  have e: "a div s * s + a mod s = a" by simp
  show ?thesis
  proof (cases "a mod s > 0")
    case True
    have "a div s * s < a" using True e by linarith
    then show ?thesis using True by (simp add: algebra_simps)
  next
    case False
    then show ?thesis using e assms by simp
  qed
qed

text \<open>
  Where the sum of line 105 does not wrap around and the occupied length is within the
  capacity, no value of the growth step wraps around either.
\<close>

lemma newSize_no_wrap:
  fixes f :: "'s VCMFrameBuffer"
  assumes chk: "m_size f + sizeBytes packet + startCodeLength cfg packet \<le> kMaxJBFrameSizeBytes cfg"
      and inv: "m_length f \<le> m_size f"
      and nowrap: "unat (m_size f) + unat (sizeBytes packet) + unat (startCodeLength cfg packet) < 2 ^ 32"
      and cfg: "2 * unat (kMaxJBFrameSizeBytes cfg) + unat (kBufferIncStepSizeBytes cfg) < 2 ^ 32"
      and step: "kBufferIncStepSizeBytes cfg \<noteq> 0"
  shows "unat (newSize cfg (requiredSizeBytes cfg packet f) f) =
         unat (m_size f) +
         unat (increments cfg (requiredSizeBytes cfg packet f)) * unat (kBufferIncStepSizeBytes cfg)"
proof -
  let ?s = "kBufferIncStepSizeBytes cfg" and ?M = "kMaxJBFrameSizeBytes cfg"
  let ?x = "sizeBytes packet" and ?c = "startCodeLength cfg packet"
  let ?r = "requiredSizeBytes cfg packet f"
  have s: "0 < unat ?s" using step by (simp add: unat_gt_0)
  have l: "unat (m_length f) \<le> unat (m_size f)" using inv by (simp add: word_le_nat_alt)
  have a1: "unat (m_size f + ?x) = unat (m_size f) + unat ?x"
    using nowrap by (simp add: unat_add_lem[THEN iffD1])
  have a2: "unat (m_size f + ?x + ?c) = unat (m_size f) + unat ?x + unat ?c"
    using nowrap a1 by (simp add: unat_add_lem[THEN iffD1])
  have sz: "unat (m_size f) + unat ?x + unat ?c \<le> unat ?M"
    using chk a2 by (simp add: word_le_nat_alt)
  have b1: "unat (m_length f + ?x) = unat (m_length f) + unat ?x"
    using nowrap l by (simp add: unat_add_lem[THEN iffD1])
  have r: "unat ?r = unat (m_length f) + unat ?x + unat ?c"
    using nowrap l b1 by (simp add: requiredSizeBytes_def Length_def unat_add_lem[THEN iffD1])
  have rM: "unat ?r \<le> unat ?M" using r sz l by linarith
  have inc: "unat (increments cfg ?r) =
             unat ?r div unat ?s + (if unat ?r mod unat ?s > 0 then 1 else 0)"
    using step by (rule unat_increments)
  have prod: "unat (increments cfg ?r) * unat ?s < unat ?r + unat ?s"
    unfolding inc using s by (rule ceil_mult_bound)
  have m: "unat (increments cfg ?r * ?s) = unat (increments cfg ?r) * unat ?s"
    using prod rM cfg by (simp add: unat_mult_lem[THEN iffD1])
  have "unat (m_size f) \<le> unat ?M" using sz by linarith
  then have "unat (m_size f) + unat (increments cfg ?r * ?s) < 2 ^ LENGTH(32)"
    using m prod rM cfg by simp
  then show ?thesis
    using m by (simp add: newSize_def unat_add_lem[THEN iffD1])
qed

section \<open>The claims\<close>

subsection \<open>C1: the result of an accepted insertion\<close>

text \<open>
  C1, as the code has it. \<^verbatim>\<open>InsertPacket\<close> has accepted the packet when it returns
  from line 173 or line 185, that is with \<^verbatim>\<open>kCompleteSession\<close> or
  \<^verbatim>\<open>kIncomplete\<close> on a frame that is not \<^verbatim>\<open>Decoding\<close>. For every accepted packet:
  if the session reports complete, the result is \<^verbatim>\<open>kCompleteSession\<close> and the state
  is not moved to \<^verbatim>\<open>Complete\<close>; it is the state before the call, except that an
  \<^verbatim>\<open>Empty\<close> frame that received a media packet has become \<^verbatim>\<open>Incomplete\<close> in
  lines 125 to 136. If the session reports not complete and the state before the call
  is \<^verbatim>\<open>Complete\<close>, the state becomes \<^verbatim>\<open>Incomplete\<close> and the result is
  \<^verbatim>\<open>kIncomplete\<close>.
\<close>

theorem InsertPacket_completeness:
  assumes res: "InsertPacket b cfg ops packet timeInMs f = Inr (r, f')"
      and acc: "r = kCompleteSession \<or> r = kIncomplete" "m_state f \<noteq> kStateDecoding"
  shows "(si_IsSessionComplete ops (m_sessionInfo f') \<longrightarrow>
            r = kCompleteSession \<and>
            m_state f' = (if m_state f = kStateEmpty \<and> VCMPacket.frameType packet \<noteq> kFrameEmpty
                          then kStateIncomplete else m_state f) \<and>
            (m_state f \<noteq> kStateComplete \<longrightarrow> m_state f' \<noteq> kStateComplete)) \<and>
         (\<not> si_IsSessionComplete ops (m_sessionInfo f') \<and> m_state f = kStateComplete \<longrightarrow>
            r = kIncomplete \<and> m_state f' = kStateIncomplete)"
proof (cases "InsertPacket_checks cfg packet f")
  case (Some r')
  then have "r = r'" using res by (simp add: InsertPacket_def)
  then show ?thesis using InsertPacket_checks_Some[OF Some] acc by auto
next
  case None
  obtain f1 where l: "InsertPacket_latch b ops packet f = Inr f1"
    using InsertPacket_latch_Inr[of b ops packet f] by blast
  have s1: "m_state f1 = (if m_state f = kStateEmpty \<and> VCMPacket.frameType packet \<noteq> kFrameEmpty
                   then kStateIncomplete else m_state f)"
    using InsertPacket_latch_fields[OF l] by simp
  from res None l obtain g f2 where g: "InsertPacket_grow cfg ops packet f1 = Inr (g, f2)"
    by (auto simp: InsertPacket_def split: sum.splits)
  show ?thesis
  proof (cases g)
    case False
    then have "r = kSizeError" using res None l g by (simp add: InsertPacket_def)
    then show ?thesis using acc by auto
  next
    case True
    then have st: "InsertPacket_store ops packet timeInMs f2 = (r, f')"
      using res None l g by (simp add: InsertPacket_def)
    have s2: "m_state f2 = m_state f1"
      using InsertPacket_grow_True[of cfg ops packet f1 f2] g True by simp
    show ?thesis using InsertPacket_store_accepted[OF st acc(1)] s1 s2 by auto
  qed
qed

text \<open>
  The theorem on a \<^verbatim>\<open>Complete\<close> frame whose session wants five packets: the packet
  is accepted, the session is not complete, the frame goes back to \<^verbatim>\<open>Incomplete\<close>.
\<close>

theorem InsertPacket_completeness_witness:
  "m_state (example_frame\<lparr>m_state := kStateComplete, m_timeStamp := 90000\<rparr>) = kStateComplete \<and>
   map_sum id (apsnd m_state)
     (InsertPacket Debug example_config (example_session 5 True) example_packet 1000
        (example_frame\<lparr>m_state := kStateComplete, m_timeStamp := 90000\<rparr>))
   = Inr (kIncomplete, kStateIncomplete)"
  using InsertPacket_completeness[of Debug example_config "example_session 5 True" example_packet 1000
        "example_frame\<lparr>m_state := kStateComplete, m_timeStamp := 90000\<rparr>" kIncomplete
        "snd (projr (InsertPacket Debug example_config (example_session 5 True) example_packet 1000
        (example_frame\<lparr>m_state := kStateComplete, m_timeStamp := 90000\<rparr>)))"]
  by (simp add: model_defs example_defs)

text \<open>
  C1 as it is stated fails on the first media packet of a frame of one packet: the frame
  is \<^verbatim>\<open>Empty\<close> before the call, the session reports complete, the result is
  \<^verbatim>\<open>kCompleteSession\<close>, and the state is \<^verbatim>\<open>Incomplete\<close> after the call, not
  unchanged.
\<close>

theorem InsertPacket_state_unchanged_counterexample:
  "m_state example_frame = kStateEmpty \<and>
   map_sum id (apsnd m_state)
     (InsertPacket Debug example_config (example_session 1 True) example_packet 1000 example_frame)
   = Inr (kCompleteSession, kStateIncomplete)"
  by (simp add: model_defs example_defs)

subsection \<open>C2: the capacity after a growth\<close>

text \<open>
  C2, as the code has it. After every \<^verbatim>\<open>InsertPacket\<close> that returns: a capacity
  that has changed has grown, is the new capacity of the growth step (capacity plus
  increments times step, in 32-bit arithmetic) and does not exceed the maximum frame
  size; the capacity is a multiple of the step size provided the capacity before the
  call was one and capacity plus increments times step is below 4294967296; and
  whenever the growth step is reached and the new capacity it computes exceeds the
  maximum, the result is \<^verbatim>\<open>kSizeError\<close> and the buffer bytes, the occupied length
  and the capacity are those before the call. \<^verbatim>\<open>ExtractFromStorage\<close>, when it
  succeeds, leaves a capacity equal to the larger of the old capacity and the stored
  payload size: it looks neither at the step size nor at the maximum.
\<close>

theorem InsertPacket_growth_capacity:
  assumes res: "InsertPacket b cfg ops packet timeInMs f = Inr (r, f')"
  shows "(unat (kBufferIncStepSizeBytes cfg) dvd unat (m_size f) \<and>
          unat (m_size f) +
            unat (increments cfg (requiredSizeBytes cfg packet f)) * unat (kBufferIncStepSizeBytes cfg)
            < 2 ^ 32 \<longrightarrow>
            unat (kBufferIncStepSizeBytes cfg) dvd unat (m_size f')) \<and>
         (m_size f' \<noteq> m_size f \<longrightarrow>
            m_size f < m_size f' \<and> m_size f' \<le> kMaxJBFrameSizeBytes cfg \<and>
            m_size f' = newSize cfg (requiredSizeBytes cfg packet f) f) \<and>
         (InsertPacket_checks cfg packet f = None \<and> m_size f \<le> requiredSizeBytes cfg packet f \<and>
          kMaxJBFrameSizeBytes cfg < newSize cfg (requiredSizeBytes cfg packet f) f \<longrightarrow>
            r = kSizeError \<and> m_buffer f' = m_buffer f \<and> m_length f' = m_length f \<and>
            m_size f' = m_size f) \<and>
         (ExtractFromStorage ops frameFromStorage g = Inr (VCM_OK, g') \<longrightarrow>
            m_size g' = max (m_size g) (payloadSize frameFromStorage))"
proof -
  let ?req = "requiredSizeBytes cfg packet f"
  let ?s = "kBufferIncStepSizeBytes cfg"
  have stored: "m_size g' = max (m_size g) (payloadSize frameFromStorage)"
    if "ExtractFromStorage ops frameFromStorage g = Inr (VCM_OK, g')"
    using that
    by (auto simp: ExtractFromStorage_def VerifyAndAllocate_def Let_def max_def split: if_splits)
  have dvd_new: "unat ?s dvd unat (newSize cfg ?req f)"
    if m: "unat ?s dvd unat (m_size f)"
    and w: "unat (m_size f) + unat (increments cfg ?req) * unat ?s < 2 ^ 32"
  proof -
    have "unat (increments cfg ?req) * unat ?s < 2 ^ LENGTH(32)" using w by simp
    then have p: "unat (increments cfg ?req * ?s) = unat (increments cfg ?req) * unat ?s"
      by (simp only: unat_mult_lem)
    have "unat (m_size f) + unat (increments cfg ?req * ?s) < 2 ^ LENGTH(32)" using w p by simp
    then have "unat (m_size f + increments cfg ?req * ?s) =
               unat (m_size f) + unat (increments cfg ?req * ?s)"
      by (simp only: unat_add_lem)
    then show ?thesis using p m by (simp add: newSize_def)
  qed
  have sizes: "(m_size f' = m_size f \<or>
                 (m_size f < m_size f' \<and> m_size f' \<le> kMaxJBFrameSizeBytes cfg \<and>
                  m_size f' = newSize cfg ?req f)) \<and>
         (InsertPacket_checks cfg packet f = None \<and> m_size f \<le> ?req \<and>
          kMaxJBFrameSizeBytes cfg < newSize cfg ?req f \<longrightarrow>
            r = kSizeError \<and> m_buffer f' = m_buffer f \<and> m_length f' = m_length f \<and>
            m_size f' = m_size f)"
  proof (cases "InsertPacket_checks cfg packet f")
    case (Some r')
    then have "f' = f" using res by (simp add: InsertPacket_def)
    then show ?thesis using Some by simp
  next
    case None
    obtain f1 where l: "InsertPacket_latch b ops packet f = Inr f1"
      using InsertPacket_latch_Inr[of b ops packet f] by blast
    note lf = InsertPacket_latch_fields[OF l]
    have eq: "requiredSizeBytes cfg packet f1 = ?req" "newSize cfg ?req f1 = newSize cfg ?req f"
      using growth_values_cong[of f1 f] lf by simp_all
    from res None l obtain grown f2 where g: "InsertPacket_grow cfg ops packet f1 = Inr (grown, f2)"
      by (auto simp: InsertPacket_def split: sum.splits)
    show ?thesis
    proof (cases grown)
      case False
      then have "r = kSizeError" "f' = f2" using res None l g by (simp_all add: InsertPacket_def)
      moreover have "f2 = f1"
        using InsertPacket_grow_False[of cfg ops packet f1 f2] g False by simp
      ultimately show ?thesis using lf by simp
    next
      case True
      then have st: "InsertPacket_store ops packet timeInMs f2 = (r, f')"
        using res None l g by (simp add: InsertPacket_def)
      then have sz: "m_size f' = m_size f2" using InsertPacket_store_code by blast
      have third: "\<not> (m_size f \<le> ?req \<and> kMaxJBFrameSizeBytes cfg < newSize cfg ?req f)"
        using g True eq lf by (auto simp: InsertPacket_grow_def Let_def split: if_splits)
      have gt: "InsertPacket_grow cfg ops packet f1 = Inr (True, f2)" using g True by simp
      from InsertPacket_grow_True[OF gt]
      consider "f2 = f1" |
        "m_size f1 < newSize cfg (requiredSizeBytes cfg packet f1) f1"
        "newSize cfg (requiredSizeBytes cfg packet f1) f1 \<le> kMaxJBFrameSizeBytes cfg"
        "m_size f2 = newSize cfg (requiredSizeBytes cfg packet f1) f1"
        by blast
      then show ?thesis
      proof cases
        case 1
        then show ?thesis using sz lf third by auto
      next
        case 2
        then show ?thesis using sz eq lf third by auto
      qed
    qed
  qed
  show ?thesis using sizes stored dvd_new by (intro conjI impI) auto
qed

text \<open>
  The theorem on the first packet of a frame: the capacity grows from 0 to one step of
  30000 bytes.
\<close>

theorem InsertPacket_growth_capacity_witness:
  "unat (kBufferIncStepSizeBytes example_config) dvd unat (m_size example_frame) \<and>
   unat (m_size example_frame) +
     unat (increments example_config (requiredSizeBytes example_config example_packet example_frame))
       * unat (kBufferIncStepSizeBytes example_config) = 30000 \<and>
   map_sum id (apsnd m_size)
     (InsertPacket Debug example_config (example_session 1 True) example_packet 1000 example_frame)
   = Inr (kCompleteSession, 30000) \<and>
   unat (kBufferIncStepSizeBytes example_config) dvd unat (30000 :: WebRtc_UWord32)"
  using InsertPacket_growth_capacity[of Debug example_config "example_session 1 True" example_packet
        1000 example_frame kCompleteSession
        "snd (projr (InsertPacket Debug example_config (example_session 1 True) example_packet 1000
           example_frame))"]
  by (simp add: model_defs example_defs)

text \<open>
  C2 as it is stated fails in three ways. \<^verbatim>\<open>ExtractFromStorage\<close> of a stored frame
  of one byte grows the capacity of a fresh frame from 0 to 1, which is not a multiple of
  the step size. \<^verbatim>\<open>InsertPacket\<close> on that frame then grows the capacity from 1 to
  30001, not a multiple either, as the capacity before the call was not one. And on the
  frame
  of capacity 30000 that holds three bytes, a packet of declared size 4294957296 passes
  the checks and grows the capacity to 42704: capacity plus 143166 steps is 4295010000,
  which is 42704 in 32 bits.
\<close>

theorem growth_multiple_of_step_counterexample:
  "m_size example_frame = 0 \<and>
   map_sum id (apsnd m_size)
     (ExtractFromStorage (example_session 1 True) example_stored example_frame)
   = Inr (VCM_OK, 1) \<and>
   \<not> unat (kBufferIncStepSizeBytes example_config) dvd unat (1 :: WebRtc_UWord32) \<and>
   map_sum id (apsnd m_size)
     (InsertPacket Debug example_config (example_session 5 True) example_packet 1000
        (snd (projr (ExtractFromStorage (example_session 1 True) example_stored example_frame))))
   = Inr (kIncomplete, 30001) \<and>
   \<not> unat (kBufferIncStepSizeBytes example_config) dvd unat (30001 :: WebRtc_UWord32) \<and>
   unat (kBufferIncStepSizeBytes example_config) dvd unat (m_size second_frame) \<and>
   map_sum id (apsnd m_size)
     (InsertPacket Debug example_config (example_session 5 True) odd_packet 1001 second_frame)
   = Inr (kIncomplete, 42704) \<and>
   \<not> unat (kBufferIncStepSizeBytes example_config) dvd unat (42704 :: WebRtc_UWord32)"
  by (simp add: model_defs example_defs)

subsection \<open>C3: the growth request\<close>

text \<open>
  C3 says that an insertion whose required size is at least the capacity asks for the
  capacity plus the ceiling of required size over step size, times the step size, and
  returns \<^verbatim>\<open>kSizeError\<close> if that exceeds the maximum frame size. The code at a
  packet of declared size 4294937296 for the frame of capacity 30000 that holds three
  bytes: the 32-bit sum of line 105 is 0, so the checks pass; the required size is
  4294937299 and the number of increments 143165, its ceiling; capacity plus increments
  times step is 4294980000, far above the maximum of 4000000; but \<^verbatim>\<open>newSize\<close> is
  12704 in 32 bits, line 148 lets it pass, nothing is allocated, the packet is handed to
  the session and the result is \<^verbatim>\<open>kIncomplete\<close>.
\<close>

theorem InsertPacket_growth_wraps:
  "m_state second_frame = kStateIncomplete \<and> m_timeStamp second_frame = 90000 \<and>
   m_size second_frame = 30000 \<and> m_length second_frame = 3 \<and>
   InsertPacket_checks example_config oversized_packet second_frame = None \<and>
   requiredSizeBytes example_config oversized_packet second_frame = 4294937299 \<and>
   increments example_config 4294937299 = 143165 \<and>
   (30000 :: nat) + 143165 * 30000 = 4294980000 \<and>
   newSize example_config 4294937299 second_frame = 12704 \<and>
   map_sum id (apsnd m_size)
     (InsertPacket Debug example_config (example_session 5 True) oversized_packet 1001 second_frame)
   = Inr (kIncomplete, 30000)"
  by (simp add: model_defs example_defs)

subsection \<open>C4: what a failed growth leaves behind\<close>

text \<open>
  C4, as the code has it. When \<^verbatim>\<open>InsertPacket\<close> fails at the growth step with
  \<^verbatim>\<open>kSizeError\<close>, the object differs from the one before the call in the fields
  that lines 115 to 136 write, and in no other: the session has the packet's sequence
  number as start sequence number if the packet is a media packet and none was recorded;
  the payload type is the packet's if the packet has data; on an \<^verbatim>\<open>Empty\<close> frame
  the timestamp and the codec are the packet's, and the state is \<^verbatim>\<open>Incomplete\<close>
  if the packet is a media packet. When \<^verbatim>\<open>ExtractFromStorage\<close> fails with
  \<^verbatim>\<open>VCM_MEMORY\<close>, the object differs from the one before the call in the nine
  fields that lines 344 to 352 write, and in no other: frame type, timestamp, payload
  type, encoded width and height, missing-frame and complete-frame flags, render time
  and codec are those of the stored frame. In both cases the buffer bytes, the capacity,
  the occupied length, the nack count and the latest arrival time are those before the
  call.
\<close>

theorem failed_growth_effects:
  "(InsertPacket_checks cfg packet f = None \<and> InsertPacket_latch b ops packet f = Inr f1 \<and>
    InsertPacket_grow cfg ops packet f1 = Inr (False, f2) \<longrightarrow>
      InsertPacket b cfg ops packet timeInMs f =
        Inr (kSizeError,
             f\<lparr>m_timeStamp := (if m_state f = kStateEmpty then timestamp packet else m_timeStamp f),
               m_payloadType := (if dataPtr packet \<noteq> None then VCMPacket.payloadType packet
                                 else m_payloadType f),
               m_codec := (if m_state f = kStateEmpty then VCMPacket.codec packet else m_codec f),
               m_state := (if m_state f = kStateEmpty \<and> VCMPacket.frameType packet \<noteq> kFrameEmpty
                           then kStateIncomplete else m_state f),
               m_sessionInfo := (if VCMPacket.frameType packet \<noteq> kFrameEmpty \<and>
                                    \<not> si_HaveStartSeqNumber ops (m_sessionInfo f)
                                 then si_SetStartSeqNumber ops (seqNum packet) (m_sessionInfo f)
                                 else m_sessionInfo f)\<rparr>)) \<and>
   (ExtractFromStorage ops frameFromStorage f = Inr (VCM_MEMORY, f') \<longrightarrow>
      f' = f\<lparr>m_frameType := ConvertFrameType ops (EncodedVideoData.frameType frameFromStorage),
             m_timeStamp := timeStamp frameFromStorage,
             m_payloadType := EncodedVideoData.payloadType frameFromStorage,
             m_encodedWidth := encodedWidth frameFromStorage,
             m_encodedHeight := encodedHeight frameFromStorage,
             m_missingFrame := missingFrame frameFromStorage,
             m_completeFrame := completeFrame frameFromStorage,
             m_renderTimeMs := renderTimeMs frameFromStorage,
             m_codec := EncodedVideoData.codec frameFromStorage\<rparr>)"
proof -
  have a: "InsertPacket b cfg ops packet timeInMs f = Inr (kSizeError, f1)"
    if "InsertPacket_checks cfg packet f = None" "InsertPacket_latch b ops packet f = Inr f1"
       "InsertPacket_grow cfg ops packet f1 = Inr (False, f2)"
    using that InsertPacket_grow_False[OF that(3)] by (simp add: InsertPacket_def)
  have e: "f' = f\<lparr>m_frameType := ConvertFrameType ops (EncodedVideoData.frameType frameFromStorage),
             m_timeStamp := timeStamp frameFromStorage,
             m_payloadType := EncodedVideoData.payloadType frameFromStorage,
             m_encodedWidth := encodedWidth frameFromStorage,
             m_encodedHeight := encodedHeight frameFromStorage,
             m_missingFrame := missingFrame frameFromStorage,
             m_completeFrame := completeFrame frameFromStorage,
             m_renderTimeMs := renderTimeMs frameFromStorage,
             m_codec := EncodedVideoData.codec frameFromStorage\<rparr>"
    if "ExtractFromStorage ops frameFromStorage f = Inr (VCM_MEMORY, f')"
    using that
    by (auto simp: ExtractFromStorage_def VerifyAndAllocate_def Let_def split: if_splits)
  show ?thesis
  proof (intro conjI impI)
    assume h: "InsertPacket_checks cfg packet f = None \<and> InsertPacket_latch b ops packet f = Inr f1 \<and>
               InsertPacket_grow cfg ops packet f1 = Inr (False, f2)"
    then have "InsertPacket b cfg ops packet timeInMs f = Inr (kSizeError, f1)" using a by blast
    moreover from h have "InsertPacket_latch b ops packet f = Inr f1" by blast
    note InsertPacket_latch_eq[OF this]
    ultimately show "InsertPacket b cfg ops packet timeInMs f =
        Inr (kSizeError,
             f\<lparr>m_timeStamp := (if m_state f = kStateEmpty then timestamp packet else m_timeStamp f),
               m_payloadType := (if dataPtr packet \<noteq> None then VCMPacket.payloadType packet
                                 else m_payloadType f),
               m_codec := (if m_state f = kStateEmpty then VCMPacket.codec packet else m_codec f),
               m_state := (if m_state f = kStateEmpty \<and> VCMPacket.frameType packet \<noteq> kFrameEmpty
                           then kStateIncomplete else m_state f),
               m_sessionInfo := (if VCMPacket.frameType packet \<noteq> kFrameEmpty \<and>
                                    \<not> si_HaveStartSeqNumber ops (m_sessionInfo f)
                                 then si_SetStartSeqNumber ops (seqNum packet) (m_sessionInfo f)
                                 else m_sessionInfo f)\<rparr>)"
      by (simp only:)
  next
    assume "ExtractFromStorage ops frameFromStorage f = Inr (VCM_MEMORY, f')"
    then show "f' = f\<lparr>m_frameType := ConvertFrameType ops (EncodedVideoData.frameType frameFromStorage),
             m_timeStamp := timeStamp frameFromStorage,
             m_payloadType := EncodedVideoData.payloadType frameFromStorage,
             m_encodedWidth := encodedWidth frameFromStorage,
             m_encodedHeight := encodedHeight frameFromStorage,
             m_missingFrame := missingFrame frameFromStorage,
             m_completeFrame := completeFrame frameFromStorage,
             m_renderTimeMs := renderTimeMs frameFromStorage,
             m_codec := EncodedVideoData.codec frameFromStorage\<rparr>" by (rule e)
  qed
qed

text \<open>
  The theorem on the packet of 3990001 bytes, whose growth fails for a fresh frame, and
  on the stored frame of one byte when no memory is granted.
\<close>

theorem failed_growth_effects_witness:
  "InsertPacket_checks example_config large_packet example_frame = None \<and>
   InsertPacket Debug example_config (example_session 1 False) large_packet 1000 example_frame
   = Inr (kSizeError,
          example_frame\<lparr>m_timeStamp := 90000, m_payloadType := 96, m_codec := kVideoCodec 2,
            m_state := kStateIncomplete\<rparr>) \<and>
   ExtractFromStorage (example_session 1 False) example_stored example_frame
   = Inr (VCM_MEMORY,
          example_frame\<lparr>m_frameType := kKeyFrame, m_timeStamp := 90000, m_payloadType := 96,
            m_encodedWidth := 640, m_encodedHeight := 480, m_missingFrame := False,
            m_completeFrame := True, m_renderTimeMs := 5000, m_codec := kVideoCodec 2\<rparr>)"
proof -
  let ?ops = "example_session 1 False"
  let ?f1 = "projr (InsertPacket_latch Debug ?ops large_packet example_frame)"
  let ?f' = "snd (projr (ExtractFromStorage ?ops example_stored example_frame))"
  have c: "InsertPacket_checks example_config large_packet example_frame = None"
    by (simp add: model_defs example_defs)
  have l: "InsertPacket_latch Debug ?ops large_packet example_frame = Inr ?f1"
    by (simp add: model_defs example_defs)
  have g: "InsertPacket_grow example_config ?ops large_packet ?f1 = Inr (False, ?f1)"
    by (simp add: model_defs example_defs)
  have e: "ExtractFromStorage ?ops example_stored example_frame = Inr (VCM_MEMORY, ?f')"
    by (simp add: model_defs example_defs)
  note t = failed_growth_effects[of example_config large_packet example_frame Debug ?ops ?f1 ?f1
             1000 example_stored ?f']
  from t c l g have i: "InsertPacket Debug example_config ?ops large_packet 1000 example_frame
     = Inr (kSizeError,
          example_frame\<lparr>m_timeStamp := 90000, m_payloadType := 96, m_codec := kVideoCodec 2,
            m_state := kStateIncomplete\<rparr>)"
    by (simp add: example_defs)
  from t e have x: "?f' = example_frame\<lparr>m_frameType := kKeyFrame, m_timeStamp := 90000,
            m_payloadType := 96, m_encodedWidth := 640, m_encodedHeight := 480,
            m_missingFrame := False, m_completeFrame := True, m_renderTimeMs := 5000,
            m_codec := kVideoCodec 2\<rparr>"
    by (simp add: example_defs)
  have "ExtractFromStorage ?ops example_stored example_frame
   = Inr (VCM_MEMORY,
          example_frame\<lparr>m_frameType := kKeyFrame, m_timeStamp := 90000, m_payloadType := 96,
            m_encodedWidth := 640, m_encodedHeight := 480, m_missingFrame := False,
            m_completeFrame := True, m_renderTimeMs := 5000, m_codec := kVideoCodec 2\<rparr>)"
    by (subst e, subst x) simp
  then show ?thesis using c i by simp
qed

text \<open>
  C4 as it is stated fails on both operations. The packet of 3990001 bytes passes the
  checks on a fresh \<^verbatim>\<open>Empty\<close> frame and fails at the growth step with
  \<^verbatim>\<open>kSizeError\<close>, and the frame is \<^verbatim>\<open>Incomplete\<close> afterwards. The extraction of
  a stored frame fails with \<^verbatim>\<open>VCM_MEMORY\<close> when no memory is granted, and the
  timestamp of the frame, 0 before the call, is that of the stored frame afterwards.
\<close>

theorem failed_growth_unchanged_counterexample:
  "InsertPacket_checks example_config large_packet example_frame = None \<and>
   m_state example_frame = kStateEmpty \<and> m_timeStamp example_frame = 0 \<and>
   map_sum id (apsnd m_state)
     (InsertPacket Debug example_config (example_session 1 True) large_packet 1000 example_frame)
   = Inr (kSizeError, kStateIncomplete) \<and>
   map_sum id (apsnd m_timeStamp)
     (ExtractFromStorage (example_session 1 False) example_stored example_frame)
   = Inr (VCM_MEMORY, 90000)"
  by (simp add: model_defs example_defs)

subsection \<open>C5: a packet of another frame\<close>

text \<open>
  C5, as the code has it. For every frame whose latched timestamp is not 0, in a state
  other than \<^verbatim>\<open>Decoding\<close> and \<^verbatim>\<open>Free\<close>, and every packet whose timestamp
  differs from the frame's, \<^verbatim>\<open>InsertPacket\<close> returns \<^verbatim>\<open>kTimeStampError\<close> and
  the object, so also its occupied length, is unchanged. (Line 99 tests
  \<^verbatim>\<open>TimeStamp()\<close> first: a latched timestamp of 0 counts as none.)
\<close>

theorem InsertPacket_timestamp_mismatch:
  assumes "m_state f \<noteq> kStateDecoding" "m_state f \<noteq> kStateFree"
      and "TimeStamp f \<noteq> 0" "timestamp packet \<noteq> TimeStamp f"
  shows "InsertPacket b cfg ops packet timeInMs f = Inr (kTimeStampError, f) \<and>
         Length (snd (projr (InsertPacket b cfg ops packet timeInMs f))) = Length f"
  using assms by (simp add: InsertPacket_def InsertPacket_checks_def)

text \<open>The theorem on an \<^verbatim>\<open>Incomplete\<close> frame of timestamp 3000 and a packet of
  timestamp 90000.\<close>

theorem InsertPacket_timestamp_mismatch_witness:
  "TimeStamp (example_frame\<lparr>m_state := kStateIncomplete, m_timeStamp := 3000\<rparr>) \<noteq> 0 \<and>
   timestamp example_packet
     \<noteq> TimeStamp (example_frame\<lparr>m_state := kStateIncomplete, m_timeStamp := 3000\<rparr>) \<and>
   InsertPacket Debug example_config (example_session 1 True) example_packet 1000
     (example_frame\<lparr>m_state := kStateIncomplete, m_timeStamp := 3000\<rparr>)
   = Inr (kTimeStampError, example_frame\<lparr>m_state := kStateIncomplete, m_timeStamp := 3000\<rparr>)"
  using InsertPacket_timestamp_mismatch[of
          "example_frame\<lparr>m_state := kStateIncomplete, m_timeStamp := 3000\<rparr>" example_packet
          Debug example_config "example_session 1 True" 1000]
  by (simp add: TimeStamp_def example_defs)

text \<open>
  C5 as it is stated fails for a frame that has latched the timestamp 0: the first
  packet, of timestamp 0, is stored in a fresh frame (three bytes, timestamp 0 latched
  at line 129); a second packet, of timestamp 90000, is not refused with
  \<^verbatim>\<open>kTimeStampError\<close> but stored in the same frame, whose occupied length goes from
  3 to 6.
\<close>

theorem InsertPacket_timestamp_zero_latched_counterexample:
  "map_sum id (apsnd m_length)
     (InsertPacket Debug example_config (example_session 5 True)
        (example_packet\<lparr>timestamp := 0\<rparr>) 1000 example_frame) = Inr (kIncomplete, 3) \<and>
   m_timeStamp (snd (projr (InsertPacket Debug example_config (example_session 5 True)
        (example_packet\<lparr>timestamp := 0\<rparr>) 1000 example_frame))) = 0 \<and>
   timestamp (example_packet\<lparr>seqNum := 18\<rparr>) = 90000 \<and>
   map_sum id (apsnd m_length)
     (InsertPacket Debug example_config (example_session 5 True) (example_packet\<lparr>seqNum := 18\<rparr>)
        1001
        (snd (projr (InsertPacket Debug example_config (example_session 5 True)
                       (example_packet\<lparr>timestamp := 0\<rparr>) 1000 example_frame))))
   = Inr (kIncomplete, 6)"
  by (simp add: model_defs example_defs)

subsection \<open>C6: a packet that cannot fit\<close>

text \<open>
  C6 says that a packet whose projected size (occupied length plus packet size plus
  start-code length) exceeds the maximum frame size is refused with \<^verbatim>\<open>kSizeError\<close>
  before any side effect. The code at a packet of declared size 4294967295 with a start
  code, for a fresh frame: the projected size is 4294967299, far above the maximum of
  4000000, but the sum of line 105 is 3 in 32 bits; the checks pass, the frame becomes
  \<^verbatim>\<open>Incomplete\<close>, the packet is handed to the session and the result is
  \<^verbatim>\<open>kCompleteSession\<close>.
\<close>

theorem InsertPacket_size_check_wraps:
  "m_state example_frame = kStateEmpty \<and> TimeStamp example_frame = 0 \<and>
   unat (Length example_frame) + unat (sizeBytes wrapping_packet)
     + unat (startCodeLength example_config wrapping_packet) = 4294967299 \<and>
   unat (kMaxJBFrameSizeBytes example_config) = 4000000 \<and>
   m_size example_frame + sizeBytes wrapping_packet + startCodeLength example_config wrapping_packet
     = 3 \<and>
   InsertPacket_checks example_config wrapping_packet example_frame = None \<and>
   map_sum id (apsnd m_state)
     (InsertPacket Debug example_config (example_session 1 True) wrapping_packet 1000 example_frame)
   = Inr (kCompleteSession, kStateIncomplete)"
  by (simp add: model_defs example_defs)

subsection \<open>C7: asking for Incomplete from a state that does not allow it\<close>

text \<open>
  C7, as the code has it. For every state other than \<^verbatim>\<open>Empty\<close>, \<^verbatim>\<open>Decoding\<close>
  and \<^verbatim>\<open>Incomplete\<close>, asking \<^verbatim>\<open>SetState\<close> for \<^verbatim>\<open>Incomplete\<close> fails the
  assertion of line 287 in a debug build; in a release build the assertion is not
  there, and line 329 stores \<^verbatim>\<open>Incomplete\<close>.
\<close>

theorem SetState_Incomplete_violation:
  assumes "m_state f \<noteq> kStateEmpty" "m_state f \<noteq> kStateDecoding" "m_state f \<noteq> kStateIncomplete"
  shows "SetState Debug ops kStateIncomplete f = Inl AssertionFailed \<and>
         SetState Release ops kStateIncomplete f = Inr (f\<lparr>m_state := kStateIncomplete\<rparr>)"
  using assms by (simp add: SetState_def)

text \<open>The theorem on a \<^verbatim>\<open>Complete\<close> frame.\<close>

theorem SetState_Incomplete_violation_witness:
  "SetState Debug (example_session 1 True) kStateIncomplete
     (example_frame\<lparr>m_state := kStateComplete\<rparr>) = Inl AssertionFailed \<and>
   SetState Release (example_session 1 True) kStateIncomplete
     (example_frame\<lparr>m_state := kStateComplete\<rparr>)
   = Inr (example_frame\<lparr>m_state := kStateIncomplete\<rparr>)"
  using SetState_Incomplete_violation[of "example_frame\<lparr>m_state := kStateComplete\<rparr>"
          "example_session 1 True"]
  by (simp add: example_defs)

text \<open>
  C7 as it is stated fails in a release build: asking for \<^verbatim>\<open>Incomplete\<close> on a
  \<^verbatim>\<open>Complete\<close> frame is not a no-op, the stored state is \<^verbatim>\<open>Incomplete\<close>
  afterwards.
\<close>

theorem SetState_Incomplete_release_counterexample:
  "m_state (example_frame\<lparr>m_state := kStateComplete\<rparr>) = kStateComplete \<and>
   map_sum id m_state
     (SetState Release (example_session 1 True) kStateIncomplete
        (example_frame\<lparr>m_state := kStateComplete\<rparr>))
   = Inr kStateIncomplete"
  by (simp add: model_defs example_defs)

subsection \<open>C8: asking for Decodable\<close>

text \<open>
  C8, as the code has it. For every frame in state \<^verbatim>\<open>Incomplete\<close>, asking
  \<^verbatim>\<open>SetState\<close> for \<^verbatim>\<open>Decodable\<close> stores \<^verbatim>\<open>Decodable\<close>, whatever the session
  reports (\<^verbatim>\<open>SetState\<close> does not ask it); only a frame whose state is already
  \<^verbatim>\<open>Complete\<close> stays \<^verbatim>\<open>Complete\<close>.
\<close>

theorem SetState_Decodable:
  "(m_state f = kStateIncomplete \<longrightarrow>
      SetState b ops kStateDecodable f = Inr (f\<lparr>m_state := kStateDecodable\<rparr>)) \<and>
   (m_state f = kStateComplete \<longrightarrow> SetState b ops kStateDecodable f = Inr f)"
  by (simp add: SetState_def)

text \<open>The theorem on an \<^verbatim>\<open>Incomplete\<close> and on a \<^verbatim>\<open>Complete\<close> frame.\<close>

theorem SetState_Decodable_witness:
  "SetState Debug (example_session 0 True) kStateDecodable
     (example_frame\<lparr>m_state := kStateIncomplete\<rparr>)
   = Inr (example_frame\<lparr>m_state := kStateDecodable\<rparr>) \<and>
   SetState Debug (example_session 0 True) kStateDecodable
     (example_frame\<lparr>m_state := kStateComplete\<rparr>)
   = Inr (example_frame\<lparr>m_state := kStateComplete\<rparr>)"
  using SetState_Decodable[of "example_frame\<lparr>m_state := kStateIncomplete\<rparr>" Debug
          "example_session 0 True"]
        SetState_Decodable[of "example_frame\<lparr>m_state := kStateComplete\<rparr>" Debug
          "example_session 0 True"]
  by (simp add: example_defs)

text \<open>
  C8 as it is stated fails: the session of this \<^verbatim>\<open>Incomplete\<close> frame reports
  complete, and after the request the state is \<^verbatim>\<open>Decodable\<close>, not
  \<^verbatim>\<open>Complete\<close>.
\<close>

theorem SetState_Decodable_complete_session_counterexample:
  "si_IsSessionComplete (example_session 0 True)
     (m_sessionInfo (example_frame\<lparr>m_state := kStateIncomplete\<rparr>)) \<and>
   map_sum id m_state
     (SetState Debug (example_session 0 True) kStateDecodable
        (example_frame\<lparr>m_state := kStateIncomplete\<rparr>))
   = Inr kStateDecodable"
  by (simp add: model_defs example_defs)

subsection \<open>C9: Reset\<close>

text \<open>
  C9. Whatever the object is, after \<^verbatim>\<open>Reset\<close> the state is \<^verbatim>\<open>Free\<close>, the
  occupied length 0, the timestamp 0, the nack count 0 and the latest arrival time -1.
  A second \<^verbatim>\<open>Reset\<close> therefore finds these five values again, and it changes
  nothing at all provided that resetting the session twice is resetting it once.
\<close>

theorem Reset_postcondition:
  "GetState (Reset ops f) = kStateFree \<and> Length (Reset ops f) = 0 \<and>
   TimeStamp (Reset ops f) = 0 \<and> GetNackCount (Reset ops f) = 0 \<and>
   LatestPacketTimeMs (Reset ops f) = -1 \<and>
   GetState (Reset ops (Reset ops f)) = GetState (Reset ops f) \<and>
   Length (Reset ops (Reset ops f)) = Length (Reset ops f) \<and>
   TimeStamp (Reset ops (Reset ops f)) = TimeStamp (Reset ops f) \<and>
   GetNackCount (Reset ops (Reset ops f)) = GetNackCount (Reset ops f) \<and>
   LatestPacketTimeMs (Reset ops (Reset ops f)) = LatestPacketTimeMs (Reset ops f) \<and>
   (si_Reset ops (si_Reset ops (m_sessionInfo f)) = si_Reset ops (m_sessionInfo f) \<longrightarrow>
      Reset ops (Reset ops f) = Reset ops f)"
  by (simp add: Reset_def VCMEncodedFrame_Reset_def GetState_def Length_def TimeStamp_def
        GetNackCount_def LatestPacketTimeMs_def)

text \<open>The theorem on an \<^verbatim>\<open>Incomplete\<close> frame that holds three bytes and has been
  named once for retransmission.\<close>

theorem Reset_postcondition_witness:
  "GetNackCount (IncrementNackCount (example_frame\<lparr>m_state := kStateIncomplete, m_length := 3,
       m_timeStamp := 90000, m_latestPacketTimeMs := 1000\<rparr>)) = 1 \<and>
   GetNackCount (Reset (example_session 1 True)
     (IncrementNackCount (example_frame\<lparr>m_state := kStateIncomplete, m_length := 3,
       m_timeStamp := 90000, m_latestPacketTimeMs := 1000\<rparr>))) = 0 \<and>
   GetState (Reset (example_session 1 True)
     (IncrementNackCount (example_frame\<lparr>m_state := kStateIncomplete, m_length := 3,
       m_timeStamp := 90000, m_latestPacketTimeMs := 1000\<rparr>))) = kStateFree \<and>
   Reset (example_session 1 True) (Reset (example_session 1 True)
     (IncrementNackCount (example_frame\<lparr>m_state := kStateIncomplete, m_length := 3,
       m_timeStamp := 90000, m_latestPacketTimeMs := 1000\<rparr>)))
   = Reset (example_session 1 True)
     (IncrementNackCount (example_frame\<lparr>m_state := kStateIncomplete, m_length := 3,
       m_timeStamp := 90000, m_latestPacketTimeMs := 1000\<rparr>))"
  using Reset_postcondition[of "example_session 1 True"
          "IncrementNackCount (example_frame\<lparr>m_state := kStateIncomplete, m_length := 3,
             m_timeStamp := 90000, m_latestPacketTimeMs := 1000\<rparr>)"]
  by (simp add: example_defs IncrementNackCount_def GetNackCount_def)

subsection \<open>C10: a frame whose timestamp is 0\<close>

text \<open>
  C10. For every frame whose timestamp is 0: \<^verbatim>\<open>InsertPacket\<close> never returns
  \<^verbatim>\<open>kTimeStampError\<close>; the checks of lines 86 to 114 treat a packet of any
  timestamp as they treat the same packet with the frame's own timestamp; and a packet
  that the state, the size check and the pointer check let through, for which the growth
  step succeeds and which the session accepts, is inserted into this frame: the buffer
  and the session are those the session's \<^verbatim>\<open>InsertPacket\<close> returns for the frame's
  buffer and session, the occupied length has grown by the bytes written, the arrival
  time is that of the call, the result is \<^verbatim>\<open>kCompleteSession\<close> or
  \<^verbatim>\<open>kIncomplete\<close> as the session reports, and the frame's timestamp stays 0
  unless the frame was \<^verbatim>\<open>Empty\<close>.
\<close>

theorem InsertPacket_zero_timestamp:
  assumes ts: "TimeStamp f = 0"
  shows "map_sum id fst (InsertPacket b cfg ops packet timeInMs f) \<noteq> Inr kTimeStampError \<and>
         InsertPacket_checks cfg packet f =
           InsertPacket_checks cfg (packet\<lparr>timestamp := TimeStamp f\<rparr>) f \<and>
         (m_state f \<noteq> kStateDecoding \<and> m_state f \<noteq> kStateFree \<and>
          m_size f + sizeBytes packet + startCodeLength cfg packet \<le> kMaxJBFrameSizeBytes cfg \<and>
          (dataPtr packet \<noteq> None \<or> sizeBytes packet = 0) \<and>
          InsertPacket_latch b ops packet f = Inr f1 \<and>
          InsertPacket_grow cfg ops packet f1 = Inr (True, f2) \<and>
          si_InsertPacket ops packet (m_buffer f2) (m_sessionInfo f2) = (retVal, buf, s) \<and>
          retVal \<noteq> - 1 \<and> retVal \<noteq> - 2 \<longrightarrow>
            (\<exists>r f'. InsertPacket b cfg ops packet timeInMs f = Inr (r, f') \<and>
               r = (if si_IsSessionComplete ops s then kCompleteSession else kIncomplete) \<and>
               m_buffer f' = buf \<and> m_sessionInfo f' = s \<and>
               m_length f' = m_length f + ucast retVal \<and>
               m_latestPacketTimeMs f' = timeInMs \<and>
               m_timeStamp f' = (if m_state f = kStateEmpty then timestamp packet else 0)))"
proof -
  have c2: "InsertPacket_checks cfg packet f =
        InsertPacket_checks cfg (packet\<lparr>timestamp := TimeStamp f\<rparr>) f"
    using ts by (simp add: InsertPacket_checks_def startCodeLength_def)
  have "fst (InsertPacket_store ops packet timeInMs g) \<noteq> kTimeStampError" for g
    using InsertPacket_store_code[of ops packet timeInMs g]
    by (cases "InsertPacket_store ops packet timeInMs g") simp
  then have c1: "map_sum id fst (InsertPacket b cfg ops packet timeInMs f) \<noteq> Inr kTimeStampError"
    using ts
    by (auto simp: InsertPacket_def InsertPacket_checks_def
             split: option.splits sum.splits prod.splits if_splits)
  have c3: "\<exists>r f'. InsertPacket b cfg ops packet timeInMs f = Inr (r, f') \<and>
               r = (if si_IsSessionComplete ops s then kCompleteSession else kIncomplete) \<and>
               m_buffer f' = buf \<and> m_sessionInfo f' = s \<and>
               m_length f' = m_length f + ucast retVal \<and>
               m_latestPacketTimeMs f' = timeInMs \<and>
               m_timeStamp f' = (if m_state f = kStateEmpty then timestamp packet else 0)"
    if st: "m_state f \<noteq> kStateDecoding" "m_state f \<noteq> kStateFree"
    and sz: "m_size f + sizeBytes packet + startCodeLength cfg packet \<le> kMaxJBFrameSizeBytes cfg"
    and ptr: "dataPtr packet \<noteq> None \<or> sizeBytes packet = 0"
    and l: "InsertPacket_latch b ops packet f = Inr f1"
    and g: "InsertPacket_grow cfg ops packet f1 = Inr (True, f2)"
    and si: "si_InsertPacket ops packet (m_buffer f2) (m_sessionInfo f2) = (retVal, buf, s)"
    and rv: "retVal \<noteq> - 1" "retVal \<noteq> - 2"
  proof -
    have chk: "InsertPacket_checks cfg packet f = None"
      using ts st sz ptr by (auto simp: InsertPacket_checks_def word_neq_0_conv)
    have ip: "InsertPacket b cfg ops packet timeInMs f =
              Inr (InsertPacket_store ops packet timeInMs f2)"
      using chk l g by (simp add: InsertPacket_def)
    note lf = InsertPacket_latch_fields[OF l]
    have len: "m_length f2 = m_length f" using InsertPacket_grow_True[OF g] lf by simp
    have tsf: "m_timeStamp f2 = (if m_state f = kStateEmpty then timestamp packet else 0)"
      using g lf ts
      by (auto simp: InsertPacket_grow_def VerifyAndAllocate_def Let_def TimeStamp_def
               split: if_splits)
    show ?thesis
      unfolding ip using si rv len tsf
      by (simp add: InsertPacket_store_def Let_def Length_def)
  qed
  show ?thesis using c1 c2 c3 by (intro conjI impI) blast+
qed

text \<open>The theorem on an \<^verbatim>\<open>Incomplete\<close> frame of timestamp 0 and a packet of
  timestamp 90000: its three bytes are in the buffer afterwards, the occupied length is
  3 and the frame's timestamp still 0.\<close>

theorem InsertPacket_zero_timestamp_witness:
  "TimeStamp (example_frame\<lparr>m_state := kStateIncomplete\<rparr>) = 0 \<and>
   timestamp example_packet = 90000 \<and>
   map_sum id (apsnd m_length)
     (InsertPacket Debug example_config (example_session 5 True) example_packet 1000
        (example_frame\<lparr>m_state := kStateIncomplete\<rparr>)) = Inr (kIncomplete, 3) \<and>
   map_sum id (apsnd m_buffer)
     (InsertPacket Debug example_config (example_session 5 True) example_packet 1000
        (example_frame\<lparr>m_state := kStateIncomplete\<rparr>))
     = Inr (kIncomplete, 1 # 2 # 3 # replicate 29997 0) \<and>
   map_sum id (apsnd m_timeStamp)
     (InsertPacket Debug example_config (example_session 5 True) example_packet 1000
        (example_frame\<lparr>m_state := kStateIncomplete\<rparr>)) = Inr (kIncomplete, 0)"
proof -
  let ?ops = "example_session 5 True"
  let ?f = "example_frame\<lparr>m_state := kStateIncomplete\<rparr>"
  let ?f1 = "projr (InsertPacket_latch Debug ?ops example_packet ?f)"
  let ?f2 = "snd (projr (InsertPacket_grow example_config ?ops example_packet ?f1))"
  have t: "TimeStamp ?f = 0" by (simp add: TimeStamp_def example_defs)
  have l: "InsertPacket_latch Debug ?ops example_packet ?f = Inr ?f1"
    by (simp add: model_defs example_defs)
  have g: "InsertPacket_grow example_config ?ops example_packet ?f1 = Inr (True, ?f2)"
    by (simp add: model_defs example_defs)
  have si: "si_InsertPacket ?ops example_packet (m_buffer ?f2) (m_sessionInfo ?f2)
            = (3, 1 # 2 # 3 # replicate 29997 0, (1, 3))"
    by (simp add: model_defs example_defs)
  have pre: "m_state ?f \<noteq> kStateDecoding \<and> m_state ?f \<noteq> kStateFree \<and>
          m_size ?f + sizeBytes example_packet + startCodeLength example_config example_packet
            \<le> kMaxJBFrameSizeBytes example_config \<and>
          (dataPtr example_packet \<noteq> None \<or> sizeBytes example_packet = 0)"
    by (simp add: model_defs example_defs)
  from InsertPacket_zero_timestamp[OF t, of Debug example_config ?ops example_packet 1000 ?f1 ?f2 3
         "1 # 2 # 3 # replicate 29997 0" "(1, 3)"] pre l g si
  obtain r f' where
    "InsertPacket Debug example_config ?ops example_packet 1000 ?f = Inr (r, f')"
    "r = (if si_IsSessionComplete ?ops (1, 3) then kCompleteSession else kIncomplete)"
    "m_buffer f' = 1 # 2 # 3 # replicate 29997 0"
    "m_length f' = m_length ?f + ucast (3 :: 64 word)"
    "m_timeStamp f' = (if m_state ?f = kStateEmpty then timestamp example_packet else 0)"
    by auto
  then show ?thesis using t by (simp add: example_defs)
qed

section \<open>Further properties of InsertPacket\<close>

text \<open>
  Inserting into a \<^verbatim>\<open>Free\<close> frame returns \<^verbatim>\<open>kStateError\<close> and changes nothing
  (lines 93 to 96).
\<close>

theorem InsertPacket_Free:
  assumes "m_state f = kStateFree"
  shows "InsertPacket b cfg ops packet timeInMs f = Inr (kStateError, f)"
  using assms by (simp add: InsertPacket_def InsertPacket_checks_def)

theorem InsertPacket_Free_witness:
  "InsertPacket Debug example_config (example_session 1 True) example_packet 1000
     (example_frame\<lparr>m_state := kStateFree\<rparr>)
   = Inr (kStateError, example_frame\<lparr>m_state := kStateFree\<rparr>)"
  using InsertPacket_Free[of "example_frame\<lparr>m_state := kStateFree\<rparr>" Debug example_config
          "example_session 1 True" example_packet 1000]
  by (simp add: example_defs)

text \<open>
  Inserting into a \<^verbatim>\<open>Decoding\<close> frame returns \<^verbatim>\<open>kIncomplete\<close> and changes
  nothing (lines 86 to 90).
\<close>

theorem InsertPacket_Decoding:
  assumes "m_state f = kStateDecoding"
  shows "InsertPacket b cfg ops packet timeInMs f = Inr (kIncomplete, f)"
  using assms by (simp add: InsertPacket_def InsertPacket_checks_def)

theorem InsertPacket_Decoding_witness:
  "InsertPacket Debug example_config (example_session 1 True) example_packet 1000
     (example_frame\<lparr>m_state := kStateDecoding\<rparr>)
   = Inr (kIncomplete, example_frame\<lparr>m_state := kStateDecoding\<rparr>)"
  using InsertPacket_Decoding[of "example_frame\<lparr>m_state := kStateDecoding\<rparr>" Debug
          example_config "example_session 1 True" example_packet 1000]
  by (simp add: example_defs)

text \<open>
  Whenever \<^verbatim>\<open>InsertPacket\<close> returns \<^verbatim>\<open>kDuplicatePacket\<close>, the occupied length,
  the latest arrival time and the nack count are those before the call (lines 162 to
  165 return before line 167).
\<close>

theorem InsertPacket_duplicate:
  assumes "InsertPacket b cfg ops packet timeInMs f = Inr (kDuplicatePacket, f')"
  shows "m_length f' = m_length f \<and> m_latestPacketTimeMs f' = m_latestPacketTimeMs f \<and>
         m_nackCount f' = m_nackCount f"
proof (cases "InsertPacket_checks cfg packet f")
  case (Some r)
  then show ?thesis using assms InsertPacket_checks_Some[OF Some] by (auto simp: InsertPacket_def)
next
  case None
  obtain f1 where l: "InsertPacket_latch b ops packet f = Inr f1"
    using InsertPacket_latch_Inr[of b ops packet f] by blast
  note lf = InsertPacket_latch_fields[OF l]
  from assms None l obtain grown f2 where g: "InsertPacket_grow cfg ops packet f1 = Inr (grown, f2)"
    by (auto simp: InsertPacket_def split: sum.splits)
  have t: "grown" using assms None l g by (cases grown) (simp_all add: InsertPacket_def)
  then have st: "InsertPacket_store ops packet timeInMs f2 = (kDuplicatePacket, f')"
    using assms None l g by (simp add: InsertPacket_def)
  have gt: "InsertPacket_grow cfg ops packet f1 = Inr (True, f2)" using g t by simp
  have "m_length f2 = m_length f1 \<and> m_latestPacketTimeMs f2 = m_latestPacketTimeMs f1 \<and>
        m_nackCount f2 = m_nackCount f1"
    using gt by (auto simp: InsertPacket_grow_def VerifyAndAllocate_def Let_def split: if_splits)
  moreover have "m_length f' = m_length f2 \<and> m_latestPacketTimeMs f' = m_latestPacketTimeMs f2 \<and>
        m_nackCount f' = m_nackCount f2"
    using st by (auto simp: InsertPacket_store_def Let_def split: prod.splits if_splits)
  ultimately show ?thesis using lf by simp
qed

theorem InsertPacket_duplicate_witness:
  "map_sum id (apsnd m_length)
     (InsertPacket Debug example_config duplicate_session example_packet 1000
        (example_frame\<lparr>m_state := kStateIncomplete, m_timeStamp := 90000\<rparr>))
   = Inr (kDuplicatePacket, 0)"
  using InsertPacket_duplicate[of Debug example_config duplicate_session example_packet 1000
          "example_frame\<lparr>m_state := kStateIncomplete, m_timeStamp := 90000\<rparr>"
          "snd (projr (InsertPacket Debug example_config duplicate_session example_packet 1000
             (example_frame\<lparr>m_state := kStateIncomplete, m_timeStamp := 90000\<rparr>)))"]
  by (simp add: model_defs example_defs)

text \<open>
  A packet whose size, added to the capacity and the start-code length, does not wrap
  around 32 bits: on a frame in a state other than \<^verbatim>\<open>Decoding\<close> and
  \<^verbatim>\<open>Free\<close> whose occupied length is within its capacity, with a timestamp that
  passes line 99, the packet is refused with \<^verbatim>\<open>kSizeError\<close> and nothing is
  changed if the occupied length plus the packet size plus the start-code length exceeds
  the maximum frame size (lines 104 to 110; line 105 adds the capacity, which is never
  the smaller sum).
\<close>

theorem InsertPacket_projected_size:
  assumes st: "m_state f \<noteq> kStateDecoding" "m_state f \<noteq> kStateFree"
      and ts: "TimeStamp f = 0 \<or> TimeStamp f = timestamp packet"
      and inv: "Length f \<le> m_size f"
      and nowrap: "unat (m_size f) + unat (sizeBytes packet) + unat (startCodeLength cfg packet) < 2 ^ 32"
      and big: "unat (kMaxJBFrameSizeBytes cfg) <
                unat (Length f) + unat (sizeBytes packet) + unat (startCodeLength cfg packet)"
  shows "InsertPacket b cfg ops packet timeInMs f = Inr (kSizeError, f)"
proof -
  have l: "unat (Length f) \<le> unat (m_size f)" using inv by (simp add: word_le_nat_alt)
  have a1: "unat (m_size f + sizeBytes packet) = unat (m_size f) + unat (sizeBytes packet)"
    using nowrap by (simp add: unat_add_lem[THEN iffD1])
  have a2: "unat (m_size f + sizeBytes packet + startCodeLength cfg packet) =
            unat (m_size f) + unat (sizeBytes packet) + unat (startCodeLength cfg packet)"
    using nowrap a1 by (simp add: unat_add_lem[THEN iffD1])
  have "kMaxJBFrameSizeBytes cfg < m_size f + sizeBytes packet + startCodeLength cfg packet"
    using big l a2 by (simp add: word_less_nat_alt)
  then have "InsertPacket_checks cfg packet f = Some kSizeError"
    using st ts by (auto simp: InsertPacket_checks_def)
  then show ?thesis by (simp add: InsertPacket_def)
qed

theorem InsertPacket_projected_size_witness:
  "Length (example_frame\<lparr>m_buffer := replicate 30000 0, m_size := 30000, m_length := 20000,
        m_timeStamp := 90000, m_state := kStateIncomplete\<rparr>) \<le>
   m_size (example_frame\<lparr>m_buffer := replicate 30000 0, m_size := 30000, m_length := 20000,
        m_timeStamp := 90000, m_state := kStateIncomplete\<rparr>) \<and>
   InsertPacket Debug example_config (example_session 1 True) large_packet 1000
     (example_frame\<lparr>m_buffer := replicate 30000 0, m_size := 30000, m_length := 20000,
        m_timeStamp := 90000, m_state := kStateIncomplete\<rparr>)
   = Inr (kSizeError, example_frame\<lparr>m_buffer := replicate 30000 0, m_size := 30000,
        m_length := 20000, m_timeStamp := 90000, m_state := kStateIncomplete\<rparr>)"
  using InsertPacket_projected_size[of
          "example_frame\<lparr>m_buffer := replicate 30000 0, m_size := 30000, m_length := 20000,
             m_timeStamp := 90000, m_state := kStateIncomplete\<rparr>" large_packet example_config
          Debug "example_session 1 True" 1000]
  by (simp add: TimeStamp_def Length_def startCodeLength_def example_defs)

text \<open>
  The growth step (lines 138 to 156) of an insertion that passes the checks and whose
  required size is at least the capacity. The number of increments is the ceiling of
  the required size divided by the step size, exactly: it cannot wrap around. Where the
  sum of line 105 does not wrap around, the occupied length is within the capacity and
  twice the maximum plus one step fits in 32 bits, the requested capacity is the
  capacity plus that many steps, exactly. If the requested capacity (a 32-bit value)
  exceeds the maximum frame size, the result is \<^verbatim>\<open>kSizeError\<close> and the capacity
  is unchanged; otherwise the requested capacity is the capacity after the call if it
  is larger and memory is granted, and the result is \<^verbatim>\<open>kSizeError\<close> with the
  capacity unchanged if it is larger and no memory is granted.
\<close>

theorem InsertPacket_growth_request:
  assumes chk: "InsertPacket_checks cfg packet f = None"
      and need: "m_size f \<le> requiredSizeBytes cfg packet f"
      and step: "kBufferIncStepSizeBytes cfg \<noteq> 0"
  shows "(let required = requiredSizeBytes cfg packet f; requested = newSize cfg required f in
          int (unat (increments cfg required)) =
            \<lceil>real (unat required) / real (unat (kBufferIncStepSizeBytes cfg))\<rceil> \<and>
          (m_length f \<le> m_size f \<and>
           unat (m_size f) + unat (sizeBytes packet) + unat (startCodeLength cfg packet) < 2 ^ 32 \<and>
           2 * unat (kMaxJBFrameSizeBytes cfg) + unat (kBufferIncStepSizeBytes cfg) < 2 ^ 32 \<longrightarrow>
             int (unat requested) =
               int (unat (m_size f)) +
               \<lceil>real (unat required) / real (unat (kBufferIncStepSizeBytes cfg))\<rceil> *
                 int (unat (kBufferIncStepSizeBytes cfg))) \<and>
          (kMaxJBFrameSizeBytes cfg < requested \<longrightarrow>
             (\<exists>f'. InsertPacket b cfg ops packet timeInMs f = Inr (kSizeError, f') \<and>
                   m_size f' = m_size f)) \<and>
          (requested \<le> kMaxJBFrameSizeBytes cfg \<and> m_size f < requested \<and> alloc_ok ops requested \<longrightarrow>
             (\<exists>r f'. InsertPacket b cfg ops packet timeInMs f = Inr (r, f') \<and>
                     m_size f' = requested)) \<and>
          (requested \<le> kMaxJBFrameSizeBytes cfg \<and> m_size f < requested \<and> \<not> alloc_ok ops requested \<longrightarrow>
             (\<exists>f'. InsertPacket b cfg ops packet timeInMs f = Inr (kSizeError, f') \<and>
                   m_size f' = m_size f)))"
proof -
  let ?req = "requiredSizeBytes cfg packet f"
  let ?new = "newSize cfg ?req f"
  obtain f1 where l: "InsertPacket_latch b ops packet f = Inr f1"
    using InsertPacket_latch_Inr[of b ops packet f] by blast
  note lf = InsertPacket_latch_fields[OF l]
  have eq: "requiredSizeBytes cfg packet f1 = ?req" "newSize cfg ?req f1 = ?new"
    using growth_values_cong[of f1 f] lf by simp_all
  have s: "0 < unat (kBufferIncStepSizeBytes cfg)" using step by (simp add: unat_gt_0)
  have c2: "int (unat (increments cfg ?req)) =
            \<lceil>real (unat ?req) / real (unat (kBufferIncStepSizeBytes cfg))\<rceil>"
    using unat_increments[OF step, of ?req] ceiling_div_nat[OF s, of "unat ?req"] by simp
  have c3: "int (unat ?new) = int (unat (m_size f)) +
               \<lceil>real (unat ?req) / real (unat (kBufferIncStepSizeBytes cfg))\<rceil> *
                 int (unat (kBufferIncStepSizeBytes cfg))"
    if h: "m_length f \<le> m_size f \<and>
           unat (m_size f) + unat (sizeBytes packet) + unat (startCodeLength cfg packet) < 2 ^ 32 \<and>
           2 * unat (kMaxJBFrameSizeBytes cfg) + unat (kBufferIncStepSizeBytes cfg) < 2 ^ 32"
  proof -
    have k: "m_size f + sizeBytes packet + startCodeLength cfg packet \<le> kMaxJBFrameSizeBytes cfg"
      using InsertPacket_checks_None[OF chk] by simp
    from h have h1: "m_length f \<le> m_size f"
      and h2: "unat (m_size f) + unat (sizeBytes packet) + unat (startCodeLength cfg packet) < 2 ^ 32"
      and h3: "2 * unat (kMaxJBFrameSizeBytes cfg) + unat (kBufferIncStepSizeBytes cfg) < 2 ^ 32"
      by blast+
    have "unat ?new = unat (m_size f) +
            unat (increments cfg ?req) * unat (kBufferIncStepSizeBytes cfg)"
      using newSize_no_wrap[OF k h1 h2 h3 step] .
    then have "int (unat ?new) = int (unat (m_size f)) +
            int (unat (increments cfg ?req)) * int (unat (kBufferIncStepSizeBytes cfg))"
      by simp
    then show ?thesis by (simp only: c2)
  qed
  have c4: "\<exists>f'. InsertPacket b cfg ops packet timeInMs f = Inr (kSizeError, f') \<and> m_size f' = m_size f"
    if "kMaxJBFrameSizeBytes cfg < ?new"
  proof -
    have "InsertPacket_grow cfg ops packet f1 = Inr (False, f1)"
      using that need step eq lf by (simp add: InsertPacket_grow_def Let_def)
    then show ?thesis using chk l lf by (simp add: InsertPacket_def)
  qed
  have c5: "\<exists>r f'. InsertPacket b cfg ops packet timeInMs f = Inr (r, f') \<and> m_size f' = ?new"
    if h: "?new \<le> kMaxJBFrameSizeBytes cfg \<and> m_size f < ?new \<and> alloc_ok ops ?new"
  proof -
    obtain f2 where g: "InsertPacket_grow cfg ops packet f1 = Inr (True, f2)"
      and z: "m_size f2 = ?new"
      using h need step eq lf
      by (auto simp: InsertPacket_grow_def VerifyAndAllocate_def Let_def not_less)
    obtain r f' where st: "InsertPacket_store ops packet timeInMs f2 = (r, f')" by fastforce
    then have "m_size f' = ?new" using InsertPacket_store_code[OF st] z by simp
    then show ?thesis using chk l g st by (auto simp: InsertPacket_def)
  qed
  have c6: "\<exists>f'. InsertPacket b cfg ops packet timeInMs f = Inr (kSizeError, f') \<and> m_size f' = m_size f"
    if "?new \<le> kMaxJBFrameSizeBytes cfg \<and> m_size f < ?new \<and> \<not> alloc_ok ops ?new"
  proof -
    have "InsertPacket_grow cfg ops packet f1 = Inr (False, f1)"
      using that need step eq lf
      by (auto simp: InsertPacket_grow_def VerifyAndAllocate_def Let_def not_less)
    then show ?thesis using chk l lf by (simp add: InsertPacket_def)
  qed
  show ?thesis unfolding Let_def using c2 c3 c4 c5 c6 by blast
qed

theorem InsertPacket_growth_request_witness:
  "InsertPacket_checks example_config large_packet example_frame = None \<and>
   m_size example_frame \<le> requiredSizeBytes example_config large_packet example_frame \<and>
   increments example_config (requiredSizeBytes example_config large_packet example_frame) = 134 \<and>
   \<lceil>real (unat (3990001 :: WebRtc_UWord32)) / real (unat (30000 :: WebRtc_UWord32))\<rceil> = 134 \<and>
   newSize example_config (requiredSizeBytes example_config large_packet example_frame) example_frame
     = 4020000 \<and>
   map_sum id fst
     (InsertPacket Debug example_config (example_session 1 True) large_packet 1000 example_frame)
   = Inr kSizeError"
  using InsertPacket_growth_request[of example_config large_packet example_frame Debug
          "example_session 1 True" 1000]
  by (simp add: model_defs example_defs)

end
